theory Spec2Isabelle
  imports Complex_Main
begin

section \<open>JavaScript values, errors and string primitives\<close>

text \<open>
  The values that \<^verbatim>\<open>JSON.parse\<close> produces, together with \<^verbatim>\<open>undefined\<close>, which the
  code meets when it reads a property that an object does not have. An object is the list
  of its own enumerable properties in enumeration order, with distinct keys. Strings are
  sequences of 8-bit characters; the model does not cover code units above 255.
\<close>

datatype json =
    JUndefined
  | JNull
  | JBool bool
  | JNum rat
  | JStr string
  | JArr "json list"
  | JObj "(string \<times> json) list"

text \<open>
  Exceptions are values. \<open>ParseFailure id content\<close> is the \<^verbatim>\<open>Error\<close> that
  \<^verbatim>\<open>parseAndDereference\<close> raises with the message
  \<^verbatim>\<open>Failed to parse JSON for ID "<id>": ... | Content: <content>\<close>; \<open>RootMissing\<close> is the one
  with the message \<^verbatim>\<open>Could not find the root object with ID '0'.\<close>; \<open>MissingMime\<close> is the
  one \<^verbatim>\<open>uploadAttachmentToR2\<close> raises for an attachment without a mime type;
  \<open>UploadFailed\<close> and \<open>TransportError\<close> are failures of the network collaborators;
  \<open>RangeError\<close> is the engine's stack overflow.
\<close>

datatype error =
    TypeError
  | RangeError
  | SyntaxError
  | ParseFailure string string
  | RootMissing
  | MissingMime
  | UploadFailed
  | TransportError

text \<open>ToBoolean, as \<^verbatim>\<open>if (x)\<close>, \<^verbatim>\<open>!x\<close> and \<^verbatim>\<open>x || y\<close> apply it.\<close>

fun truthy :: "json \<Rightarrow> bool" where
  "truthy JUndefined = False"
| "truthy JNull = False"
| "truthy (JBool b) = b"
| "truthy (JNum q) = (q \<noteq> 0)"
| "truthy (JStr s) = (s \<noteq> [])"
| "truthy (JArr xs) = True"
| "truthy (JObj kvs) = True"

text \<open>
  Reading a property \<^verbatim>\<open>v.key\<close> of a parsed value, for a key that no prototype defines
  (\<^verbatim>\<open>type\<close>, \<^verbatim>\<open>mimeType\<close>, \<^verbatim>\<open>name\<close>, \<^verbatim>\<open>image\<close>, \<^verbatim>\<open>error\<close>): a TypeError on
  \<^verbatim>\<open>null\<close> and \<^verbatim>\<open>undefined\<close>, the own property of an object, \<^verbatim>\<open>undefined\<close> otherwise.
\<close>

fun get_prop :: "json \<Rightarrow> string \<Rightarrow> error + json" where
  "get_prop JUndefined k = Inl TypeError"
| "get_prop JNull k = Inl TypeError"
| "get_prop (JObj kvs) k = (case map_of kvs k of None \<Rightarrow> Inr JUndefined | Some v \<Rightarrow> Inr v)"
| "get_prop v k = Inr JUndefined"

text \<open>\<^verbatim>\<open>typeof v === "string"\<close>, and the characters of a string value.\<close>

fun is_string :: "json \<Rightarrow> bool" where
  "is_string (JStr t) = True"
| "is_string v = False"

fun string_value :: "json \<Rightarrow> string" where
  "string_value (JStr t) = t"
| "string_value v = []"

definition newline :: char where
  "newline = CHR 0x0A"

text \<open>The white space and line terminators that \<^verbatim>\<open>String.prototype.trim\<close> strips.\<close>

definition is_space :: "char \<Rightarrow> bool" where
  "is_space c \<longleftrightarrow> (of_char c :: nat) \<in> {0x09, 0x0A, 0x0B, 0x0C, 0x0D, 0x20, 0xA0}"

definition trim :: "string \<Rightarrow> string" where
  "trim s = rev (dropWhile is_space (rev (dropWhile is_space s)))"

definition lower_char :: "char \<Rightarrow> char" where
  "lower_char c =
     (let n = (of_char c :: nat)
      in if (0x41 \<le> n \<and> n \<le> 0x5A) \<or> (0xC0 \<le> n \<and> n \<le> 0xDE \<and> n \<noteq> 0xD7)
         then char_of (n + 0x20) else c)"

definition toLowerCase :: "string \<Rightarrow> string" where
  "toLowerCase s = map lower_char s"

text \<open>\<^verbatim>\<open>s.indexOf(c)\<close> for a one-character needle; \<open>None\<close> is the result \<^verbatim>\<open>-1\<close>.\<close>

fun indexOf :: "string \<Rightarrow> char \<Rightarrow> nat option" where
  "indexOf [] c = None"
| "indexOf (x # xs) c = (if x = c then Some 0 else map_option Suc (indexOf xs c))"

text \<open>\<^verbatim>\<open>s.split("\n")\<close>: the empty string splits into one empty line.\<close>

fun split_nl :: "string \<Rightarrow> string list" where
  "split_nl [] = [[]]"
| "split_nl (c # cs) =
     (if c = newline then [] # split_nl cs
      else (case split_nl cs of [] \<Rightarrow> [[c]] | l # ls \<Rightarrow> (c # l) # ls))"

section \<open>Data model\<close>

text \<open>An entry of \<^verbatim>\<open>experimental_attachments\<close>.\<close>

record wire_attachment =
  contentType :: json
  name :: json
  url :: json

text \<open>\<^verbatim>\<open>Attachment\<close> of the type declarations; \<open>None\<close> is \<^verbatim>\<open>null\<close>.\<close>

record attachment =
  mime :: string
  r2Key :: "string option"
  r2BucketUrl :: "string option"

text \<open>
  \<^verbatim>\<open>ChatMessage\<close>, the display message a caller passes in. The identifier and the
  attachment list may be absent (\<open>None\<close>) on entry to \<^verbatim>\<open>sendMessage\<close>.
\<close>

record chat_message =
  role_c :: string
  content_c :: string
  attachments :: "attachment list option"
  id_c :: "string option"

text \<open>
  A message of the wire graph \<^verbatim>\<open>session.lmSession.messages\<close>. The fields that the
  lazily created placeholder of \<^verbatim>\<open>runInferenceV2\<close> does not have are optional.
\<close>

record wire_message =
  experimental_attachments :: "wire_attachment list"
  evaluationSessionId :: "string option"
  content :: string
  role :: string
  id_m :: string
  modelId :: "string option"
  parentMessageIds :: "string list option"
  participantPosition :: "string option"
  status :: string

text \<open>
  \<^verbatim>\<open>session.lmSession\<close>. The array \<^verbatim>\<open>messages\<close> can have holes, because the retry
  step removes an element with \<^verbatim>\<open>delete\<close>, which keeps the length: \<open>None\<close> is a hole.
\<close>

record lm_session =
  id_lm :: string
  messages_lm :: "wire_message option list"
  modality :: string
  mode :: string
  modelAId :: string
  modelAMessageId :: string
  userMessageId :: string

record chat_session =
  lmSession :: lm_session
  doesSessionExist :: bool
  sessionId :: string
  messages :: "chat_message list"

text \<open>A record \<^verbatim>\<open>{ event, data }\<close> that a turn yields.\<close>

record stream_event =
  event :: string
  data :: json

text \<open>
  What the code takes from its host: \<^verbatim>\<open>JSON.parse\<close> (\<open>None\<close> when it throws a
  SyntaxError), the string conversion of a template literal, \<^verbatim>\<open>randomUUID\<close> as the
  sequence of its results, and the network outcome of \<^verbatim>\<open>uploadAttachmentToR2\<close> (the
  URL and the key).
\<close>

record host =
  JSON_parse :: "string \<Rightarrow> json option"
  ToString :: "json \<Rightarrow> string"
  randomUUID :: "nat \<Rightarrow> string"
  r2_upload :: "chat_session \<Rightarrow> attachment \<Rightarrow> error + (string \<times> string)"

text \<open>The messages that are present in an array with holes.\<close>

definition present :: "'a option list \<Rightarrow> 'a list" where
  "present xs = List.map_filter (\<lambda>x. x) xs"

section \<open>Session state machine\<close>

definition createSession :: "host \<Rightarrow> nat \<Rightarrow> string \<Rightarrow> string \<Rightarrow> nat \<times> chat_session" where
  "createSession h n model_id chatModality =
     (let sid = randomUUID h n
      in (Suc n,
          \<lparr> lmSession = \<lparr> id_lm = sid, messages_lm = [], modality = chatModality,
                          mode = ''direct'', modelAId = model_id, modelAMessageId = [],
                          userMessageId = [] \<rparr>,
            doesSessionExist = False, sessionId = sid, messages = [] \<rparr>))"

text \<open>\<^verbatim>\<open>Chat.shuffleSession\<close>: a new identifier, and the session does not exist remotely.\<close>

definition shuffleSession :: "host \<Rightarrow> nat \<Rightarrow> chat_session \<Rightarrow> nat \<times> chat_session" where
  "shuffleSession h n s =
     (let sid = randomUUID h n
      in (Suc n, s\<lparr> sessionId := sid, lmSession := (lmSession s)\<lparr> id_lm := sid \<rparr>,
                   doesSessionExist := False \<rparr>))"

definition uploadAttachmentToR2 ::
  "host \<Rightarrow> chat_session \<Rightarrow> attachment \<Rightarrow> error + (string \<times> string)" where
  "uploadAttachmentToR2 h s att =
     (if mime att = [] then Inl MissingMime else r2_upload h s att)"

text \<open>The loop over \<^verbatim>\<open>chatMessage.attachments\<close> in \<^verbatim>\<open>convertChatMessageToLMMessage\<close>.\<close>

fun convert_attachments ::
  "host \<Rightarrow> chat_session \<Rightarrow> attachment list \<Rightarrow> error + wire_attachment list" where
  "convert_attachments h s [] = Inr []"
| "convert_attachments h s (att # atts) =
     (case r2BucketUrl att of
        Some u \<Rightarrow>
          (case convert_attachments h s atts of
             Inl e \<Rightarrow> Inl e
           | Inr ws \<Rightarrow>
               Inr (\<lparr> contentType = JStr (mime att),
                      name = (case r2Key att of None \<Rightarrow> JNull | Some k \<Rightarrow> JStr k),
                      url = JStr u \<rparr> # ws))
      | None \<Rightarrow>
          (case uploadAttachmentToR2 h s att of
             Inl e \<Rightarrow> Inl e
           | Inr (uploadedUrl, fileName) \<Rightarrow>
               (case convert_attachments h s atts of
                  Inl e \<Rightarrow> Inl e
                | Inr ws \<Rightarrow>
                    Inr (\<lparr> contentType = JStr (mime att), name = JStr fileName,
                           url = JStr uploadedUrl \<rparr> # ws))))"

text \<open>
  \<^verbatim>\<open>convertChatMessageToLMMessage\<close>, called when the message has its identifier and its
  attachment list.
\<close>

definition convertChatMessageToLMMessage ::
  "host \<Rightarrow> chat_session \<Rightarrow> string \<Rightarrow> attachment list \<Rightarrow> chat_message \<Rightarrow> error + wire_message" where
  "convertChatMessageToLMMessage h s mid atts chatMessage =
     (case convert_attachments h s atts of
        Inl e \<Rightarrow> Inl e
      | Inr ws \<Rightarrow>
          Inr \<lparr> experimental_attachments = ws,
                evaluationSessionId = Some (sessionId s),
                content = content_c chatMessage,
                role = role_c chatMessage,
                id_m = mid,
                modelId = None,
                parentMessageIds = Some [],
                participantPosition = Some ''a'',
                status = ''pending'' \<rparr>)"

definition fillerMessage :: "chat_session \<Rightarrow> string \<Rightarrow> string \<Rightarrow> wire_message" where
  "fillerMessage s replyingToId assistantMessageId =
     \<lparr> experimental_attachments = [],
       evaluationSessionId = Some (sessionId s),
       content = [],
       role = ''assistant'',
       id_m = assistantMessageId,
       modelId = Some (modelAId (lmSession s)),
       parentMessageIds = Some [replyingToId],
       participantPosition = Some ''a'',
       status = ''pending'' \<rparr>"

definition push_wire :: "wire_message \<Rightarrow> chat_session \<Rightarrow> chat_session" where
  "push_wire m s = s\<lparr> lmSession := (lmSession s)\<lparr> messages_lm := messages_lm (lmSession s) @ [Some m] \<rparr> \<rparr>"

definition addFillerAssistantMessage :: "chat_session \<Rightarrow> string \<Rightarrow> string \<Rightarrow> chat_session" where
  "addFillerAssistantMessage s replyingToId assistantMessageId =
     push_wire (fillerMessage s replyingToId assistantMessageId) s"

text \<open>
  \<^verbatim>\<open>sendMessage\<close>. The parent is the identifier of the last element of the wire array
  when that element is present and its identifier is not empty. Nothing is appended when
  an upload fails: both pushes come after the conversion.
\<close>

definition sendMessage ::
  "host \<Rightarrow> nat \<Rightarrow> chat_session \<Rightarrow> chat_message \<Rightarrow> error + (nat \<times> chat_session)" where
  "sendMessage h n s message =
     (let (mid, n1) = (case id_c message of
                         None \<Rightarrow> (randomUUID h n, Suc n)
                       | Some i \<Rightarrow> if i = [] then (randomUUID h n, Suc n) else (i, n));
          atts = (case attachments message of None \<Rightarrow> [] | Some as \<Rightarrow> as);
          message' = message\<lparr> id_c := Some mid, attachments := Some atts \<rparr>;
          ms = messages_lm (lmSession s);
          parentIds = (if ms = [] then []
                       else (case last ms of
                               None \<Rightarrow> []
                             | Some lastMessage \<Rightarrow>
                                 if id_m lastMessage = [] then [] else [id_m lastMessage]))
      in case convertChatMessageToLMMessage h s mid atts message' of
           Inl e \<Rightarrow> Inl e
         | Inr lmMessage \<Rightarrow>
             (let s1 = push_wire (lmMessage\<lparr> parentMessageIds := Some parentIds \<rparr>)
                         (s\<lparr> messages := messages s @ [message'] \<rparr>)
              in if role_c message = ''user''
                 then (let assistantMessageId = randomUUID h n1;
                           s2 = addFillerAssistantMessage s1 mid assistantMessageId
                       in Inr (Suc n1,
                               s2\<lparr> lmSession := (lmSession s2)\<lparr> userMessageId := mid,
                                      modelAMessageId := assistantMessageId \<rparr> \<rparr>))
                 else Inr (n1, s1)))"

text \<open>
  The retry step of \<^verbatim>\<open>runInference\<close> and \<^verbatim>\<open>runInferenceV2\<close> (the body of
  \<^verbatim>\<open>if (retry)\<close>; the specification calls it beginRetry): the \<^verbatim>\<open>for ... in\<close> loop visits
  the elements that are present and deletes each one whose identifier equals the
  assistant identifier up to letter case, leaving a hole.
\<close>

definition beginRetry :: "chat_session \<Rightarrow> chat_session" where
  "beginRetry s =
     (let assistantId = modelAMessageId (lmSession s)
      in s\<lparr> lmSession := (lmSession s)\<lparr> messages_lm :=
               map (\<lambda>slot. case slot of
                              None \<Rightarrow> None
                            | Some msg \<Rightarrow>
                                if toLowerCase (id_m msg) = toLowerCase assistantId
                                then None else Some msg)
                   (messages_lm (lmSession s)) \<rparr> \<rparr>)"

section \<open>Stream protocol decoder\<close>

definition own :: "(string \<times> json) list \<Rightarrow> string \<Rightarrow> json" where
  "own kvs k = (case map_of kvs k of None \<Rightarrow> JUndefined | Some v \<Rightarrow> v)"

text \<open>
  The loop \<^verbatim>\<open>for (const item of data)\<close> of the \<^verbatim>\<open>a2\<close> branch over the items of an
  array. Reading \<^verbatim>\<open>item.type\<close> of \<^verbatim>\<open>null\<close> throws, and so does pushing to the attachments
  of a placeholder that is \<^verbatim>\<open>undefined\<close> (\<open>None\<close>); attachments pushed before the throw
  stay.
\<close>

fun a2_items :: "wire_message option \<Rightarrow> json list \<Rightarrow> wire_message option \<times> error option" where
  "a2_items ph [] = (ph, None)"
| "a2_items ph (item # items) =
     (case item of
        JUndefined \<Rightarrow> (ph, Some TypeError)
      | JNull \<Rightarrow> (ph, Some TypeError)
      | JObj kvs \<Rightarrow>
          if own kvs ''type'' = JStr ''image''
          then (case ph of
                  None \<Rightarrow> (None, Some TypeError)
                | Some p \<Rightarrow>
                    a2_items
                      (Some (p\<lparr> experimental_attachments := experimental_attachments p @
                           [\<lparr> contentType = own kvs ''mimeType'',
                              name = (if truthy (own kvs ''name'') then own kvs ''name''
                                      else JStr ''image''),
                              url = own kvs ''image'' \<rparr>] \<rparr>))
                      items)
          else a2_items ph items
      | _ \<Rightarrow> a2_items ph items)"

text \<open>
  The whole \<^verbatim>\<open>a2\<close> branch: an array is iterated item by item, a string is iterated
  character by character (no character has a \<^verbatim>\<open>type\<close>), any other value is not iterable.
\<close>

definition a2_branch :: "wire_message option \<Rightarrow> json \<Rightarrow> wire_message option \<times> error option" where
  "a2_branch ph d =
     (case d of
        JArr items \<Rightarrow> a2_items ph items
      | JStr s \<Rightarrow> (ph, None)
      | _ \<Rightarrow> (ph, Some TypeError))"

text \<open>
  \<^verbatim>\<open>processLine\<close>, the same closure in \<^verbatim>\<open>runInference\<close> and \<^verbatim>\<open>runInferenceV2\<close>, over
  the placeholder \<^verbatim>\<open>assistantMessageForTurn\<close> (\<open>None\<close> when the lookup of the legacy
  function found nothing). It returns the placeholder and the event, \<open>None\<close> for
  \<^verbatim>\<open>null\<close>. Everything after the colon search runs inside \<^verbatim>\<open>try\<close>, whose \<^verbatim>\<open>catch\<close>
  returns \<^verbatim>\<open>null\<close> for every exception: a SyntaxError of \<^verbatim>\<open>JSON.parse\<close> and a TypeError
  of the branches alike.
\<close>

definition processLine ::
  "host \<Rightarrow> wire_message option \<Rightarrow> string \<Rightarrow> wire_message option \<times> stream_event option" where
  "processLine h ph line =
     (if length line < 4 then (ph, None)
      else
        (let eventCode = take 2 line
         in case indexOf line (CHR '':'') of
              None \<Rightarrow> (ph, None)
            | Some firstColonIndex \<Rightarrow>
                (let payloadString = drop (firstColonIndex + 1) line
                 in case JSON_parse h payloadString of
                      None \<Rightarrow> (ph, None)
                    | Some d \<Rightarrow>
                        if eventCode = ''a0'' \<and> is_string d
                        then (case ph of
                                None \<Rightarrow> (None, None)
                              | Some p \<Rightarrow>
                                  (Some (p\<lparr> content := content p @ string_value d \<rparr>),
                                   Some \<lparr> event = eventCode, data = d \<rparr>))
                        else if eventCode = ''a2''
                        then (case a2_branch ph d of
                                (ph', Some e) \<Rightarrow> (ph', None)
                              | (ph', None) \<Rightarrow> (ph', Some \<lparr> event = eventCode, data = d \<rparr>))
                        else if eventCode = ''ad''
                        then (case ph of
                                None \<Rightarrow> (None, None)
                              | Some p \<Rightarrow>
                                  (Some (p\<lparr> status := ''success'' \<rparr>),
                                   Some \<lparr> event = eventCode, data = d \<rparr>))
                        else (ph, Some \<lparr> event = eventCode, data = d \<rparr>))))"

text \<open>\<^verbatim>\<open>if (result) yield result\<close>.\<close>

fun yield_result :: "'a option \<Rightarrow> 'a list" where
  "yield_result None = []"
| "yield_result (Some r) = [r]"

lemma indexOf_less: "indexOf s c = Some i \<Longrightarrow> i < length s"
  by (induction s arbitrary: i) (auto split: if_splits)

text \<open>
  The inner loop \<^verbatim>\<open>while (boundary !== -1)\<close>: it cuts the buffer at each newline, trims
  the line, processes it when it is not empty, and leaves the rest in the buffer. It
  returns the events yielded, the placeholder and the remaining buffer.
\<close>

function drain ::
  "host \<Rightarrow> wire_message option \<Rightarrow> string \<Rightarrow> stream_event list \<times> wire_message option \<times> string" where
  "drain h ph buffer =
     (case indexOf buffer newline of
        None \<Rightarrow> ([], ph, buffer)
      | Some boundary \<Rightarrow>
          (case (if trim (take boundary buffer) \<noteq> []
                 then processLine h ph (trim (take boundary buffer)) else (ph, None)) of
             (ph', result) \<Rightarrow>
               (case drain h ph' (drop (boundary + 1) buffer) of
                  (evs, ph'', rest) \<Rightarrow> (yield_result result @ evs, ph'', rest))))"
  by pat_completeness auto
termination
  by (relation "measure (\<lambda>(h, ph, buffer). length buffer)") (auto dest: indexOf_less)

declare drain.simps [simp del]

text \<open>
  The outer loop \<^verbatim>\<open>while (true)\<close> over the chunks that \<^verbatim>\<open>reader.read()\<close> delivers.
  When the body is exhausted, \<^verbatim>\<open>read\<close> either reports \<^verbatim>\<open>done\<close> or rejects (the
  transport reported an error, \<open>fails\<close>); on \<^verbatim>\<open>done\<close> a buffer that is not empty is
  processed as a last line, untrimmed. The events yielded before an exception are
  delivered.
\<close>

fun read_loop ::
  "host \<Rightarrow> wire_message option \<Rightarrow> string \<Rightarrow> string list \<Rightarrow> bool \<Rightarrow>
   stream_event list \<times> wire_message option \<times> error option" where
  "read_loop h ph buffer [] fails =
     (if fails then ([], ph, Some TransportError)
      else if buffer \<noteq> []
      then (case processLine h ph buffer of (ph', result) \<Rightarrow> (yield_result result, ph', None))
      else ([], ph, None))"
| "read_loop h ph buffer (chunk # rest) fails =
     (case drain h ph (buffer @ chunk) of
        (evs, ph', buffer') \<Rightarrow>
          (case read_loop h ph' buffer' rest fails of
             (evs', ph'', err) \<Rightarrow> (evs @ evs', ph'', err)))"

section \<open>Conversation orchestrator\<close>

text \<open>
  A response of \<^verbatim>\<open>makeAuthedRequest\<close>: the status, the headers by lower-case name, the
  text chunks of the body, and whether the body ends with a transport error. The bridge
  builds it with \<^verbatim>\<open>new Response(stream, { status, ... })\<close>, so \<^verbatim>\<open>ok\<close> is the status
  range 200 to 299.
\<close>

record response =
  status_r :: nat
  headers :: "string \<Rightarrow> string option"
  chunks :: "string list"
  stream_fails :: bool

definition ok :: "response \<Rightarrow> bool" where
  "ok r \<longleftrightarrow> 200 \<le> status_r r \<and> status_r r \<le> 299"

text \<open>\<^verbatim>\<open>await response.text()\<close>.\<close>

definition response_text :: "response \<Rightarrow> error + string" where
  "response_text r = (if stream_fails r then Inl TransportError else Inr (concat (chunks r)))"

text \<open>
  What the browser and the service answer during \<^verbatim>\<open>updateArenaAuth\<close>: whether a browser
  or network call throws, the text of the landing page, the value of the cookie
  \<^verbatim>\<open>provisional_user_id\<close> afterwards (if any), the clearance token, and whether the
  sign-up request succeeds, with its text.
\<close>

record auth_env =
  browser_fails :: bool
  provText :: string
  provisional_user_id :: "string option"
  clearance :: string
  signup_ok :: bool
  signup_text :: string

text \<open>\<^verbatim>\<open>LMArena.updateArenaAuth\<close>: every \<^verbatim>\<open>return\<close> is an array of three elements.\<close>

definition updateArenaAuth :: "auth_env \<Rightarrow> error + json" where
  "updateArenaAuth a =
     (if browser_fails a then Inl TransportError
      else case provisional_user_id a of
             None \<Rightarrow> Inr (JArr [JBool False, JNull, JStr (provText a)])
           | Some cookie_value \<Rightarrow>
               if signup_ok a then Inr (JArr [JBool True, JStr (clearance a), JStr []])
               else Inr (JArr [JBool False, JStr (clearance a), JStr (signup_text a)]))"

definition tos_message :: string where
  "tos_message = ''Error: Prompt violates [LMArena ToS](https://lmarena.ai/terms-of-use)''"

definition retry_notice :: string where
  "retry_notice = ''Anonymous image ratelimit reached, got new session. Try again.''"

definition refresh_failed :: string where
  "refresh_failed = ''Anonymous image ratelimit reached, but could not refresh token.''"

definition error_prefix :: string where
  \<open>error_prefix = ''{"error":''\<close>

definition startsWith :: "string \<Rightarrow> string \<Rightarrow> bool" where
  "startsWith s p \<longleftrightarrow> take (length p) s = p"

text \<open>The branch \<^verbatim>\<open>response.status === 429\<close>, the same in both functions.\<close>

definition rate_limited :: "auth_env \<Rightarrow> response \<Rightarrow> stream_event list \<times> error option" where
  "rate_limited a r =
     (if headers r ''ratelimit-modality'' = Some ''image''
      then (case updateArenaAuth a of
              Inl e \<Rightarrow> ([], Some e)
            | Inr couldUpdateAuth \<Rightarrow>
                if truthy couldUpdateAuth
                then ([\<lparr> event = ''a0'', data = JStr retry_notice \<rparr>,
                       \<lparr> event = ''ad'', data = JStr ''retry'' \<rparr>], None)
                else ([\<lparr> event = ''a0'', data = JStr refresh_failed \<rparr>,
                       \<lparr> event = ''ad'', data = JStr ''err'' \<rparr>], None))
      else ([], None))"

text \<open>The last branch, for the other statuses: a body that starts with \<^verbatim>\<open>{"error":\<close>.\<close>

definition error_body :: "host \<Rightarrow> string \<Rightarrow> stream_event list \<times> error option" where
  "error_body h errorText =
     (if startsWith errorText error_prefix
      then (case JSON_parse h errorText of
              None \<Rightarrow> ([], Some SyntaxError)
            | Some jBody \<Rightarrow>
                (case get_prop jBody ''error'' of
                   Inl e \<Rightarrow> ([], Some e)
                 | Inr v \<Rightarrow>
                     ([\<lparr> event = ''a0'', data = JStr (''Error: '' @ ToString h v) \<rparr>,
                       \<lparr> event = ''ad'', data = JStr ''err'' \<rparr>], None)))
      else ([], None))"

text \<open>The block \<^verbatim>\<open>if (!response.ok)\<close> of \<^verbatim>\<open>runInferenceV2\<close>.\<close>

definition error_responseV2 ::
  "host \<Rightarrow> auth_env \<Rightarrow> response \<Rightarrow> stream_event list \<times> error option" where
  "error_responseV2 h a r =
     (case response_text r of
        Inl e \<Rightarrow> ([], Some e)
      | Inr errorText \<Rightarrow>
          if status_r r = 422
          then ([\<lparr> event = ''c0'', data = JStr tos_message \<rparr>,
                 \<lparr> event = ''ad'', data = JStr ''err'' \<rparr>], None)
          else if status_r r = 429 then rate_limited a r
          else error_body h errorText)"

text \<open>
  The same block of the legacy \<^verbatim>\<open>runInference\<close>, which parses the body of a 422
  response before it yields.
\<close>

definition error_response ::
  "host \<Rightarrow> auth_env \<Rightarrow> response \<Rightarrow> stream_event list \<times> error option" where
  "error_response h a r =
     (case response_text r of
        Inl e \<Rightarrow> ([], Some e)
      | Inr errorText \<Rightarrow>
          if status_r r = 422
          then (case JSON_parse h errorText of
                  None \<Rightarrow> ([], Some SyntaxError)
                | Some jBody \<Rightarrow>
                    ([\<lparr> event = ''c0'', data = JStr tos_message \<rparr>,
                      \<lparr> event = ''ad'', data = JStr ''err'' \<rparr>], None))
          else if status_r r = 429 then rate_limited a r
          else error_body h errorText)"

text \<open>
  \<^verbatim>\<open>messages.find(callback)\<close> for a callback that reads \<^verbatim>\<open>msg.id\<close>.
  \<^verbatim>\<open>Array.prototype.find\<close> visits every index below the length and passes
  \<^verbatim>\<open>undefined\<close> for a hole, where the callback throws a TypeError. The result is the
  index and the message found.
\<close>

fun find_from ::
  "(wire_message \<Rightarrow> bool) \<Rightarrow> nat \<Rightarrow> wire_message option list \<Rightarrow> error + (nat \<times> wire_message) option" where
  "find_from P i [] = Inr None"
| "find_from P i (None # slots) = Inl TypeError"
| "find_from P i (Some msg # slots) =
     (if P msg then Inr (Some (i, msg)) else find_from P (Suc i) slots)"

definition find_message ::
  "(wire_message \<Rightarrow> bool) \<Rightarrow> wire_message option list \<Rightarrow> error + (nat \<times> wire_message) option" where
  "find_message P slots = find_from P 0 slots"

text \<open>The loop \<^verbatim>\<open>for (const msg of messagesOverride) await this.sendMessage(session, msg)\<close>.\<close>

fun send_all ::
  "host \<Rightarrow> nat \<Rightarrow> chat_session \<Rightarrow> chat_message list \<Rightarrow> error option \<times> nat \<times> chat_session" where
  "send_all h n s [] = (None, n, s)"
| "send_all h n s (msg # msgs) =
     (case sendMessage h n s msg of
        Inl e \<Rightarrow> (Some e, n, s)
      | Inr (n', s') \<Rightarrow> send_all h n' s' msgs)"

text \<open>The block \<^verbatim>\<open>if (messagesOverride)\<close>: an array, also an empty one, is truthy.\<close>

definition apply_override ::
  "host \<Rightarrow> nat \<Rightarrow> chat_session \<Rightarrow> chat_message list option \<Rightarrow> error option \<times> nat \<times> chat_session" where
  "apply_override h n s messagesOverride =
     (case messagesOverride of
        None \<Rightarrow> (None, n, s)
      | Some msgs \<Rightarrow>
          send_all h n (s\<lparr> messages := [], lmSession := (lmSession s)\<lparr> messages_lm := [] \<rparr> \<rparr>) msgs)"

text \<open>
  The outcome of a turn: the events the generator yields, the session and the position in
  the UUID sequence afterwards, and the exception that ended the generator, if any.
\<close>

record turn =
  yielded :: "stream_event list"
  session_after :: chat_session
  uuid_after :: nat
  thrown :: "error option"

definition set_messages :: "wire_message option list \<Rightarrow> chat_session \<Rightarrow> chat_session" where
  "set_messages ms s = s\<lparr> lmSession := (lmSession s)\<lparr> messages_lm := ms \<rparr> \<rparr>"

text \<open>
  The placeholder that \<^verbatim>\<open>runInferenceV2\<close> creates when the lookup finds none.
\<close>

definition lazy_placeholder :: "string \<Rightarrow> wire_message" where
  "lazy_placeholder assistantId =
     \<lparr> experimental_attachments = [],
       evaluationSessionId = None,
       content = [],
       role = ''assistant'',
       id_m = assistantId,
       modelId = None,
       parentMessageIds = None,
       participantPosition = None,
       status = ''pending'' \<rparr>"

text \<open>
  \<^verbatim>\<open>runInferenceV2\<close> for a request that \<^verbatim>\<open>makeAuthedRequest\<close> answers with \<open>resp\<close>.
  The request (URL, verb and body) has no effect on the session or the events and is
  left out. The placeholder is an element of the wire array, so what the decoder does to
  it is written back at its index.
\<close>

definition runInferenceV2 ::
  "host \<Rightarrow> auth_env \<Rightarrow> response \<Rightarrow> nat \<Rightarrow> chat_session \<Rightarrow> chat_message list option \<Rightarrow> bool \<Rightarrow> turn" where
  "runInferenceV2 h a resp n s messagesOverride retry =
     (case apply_override h n s messagesOverride of
        (Some e, n1, s1) \<Rightarrow> \<lparr> yielded = [], session_after = s1, uuid_after = n1, thrown = Some e \<rparr>
      | (None, n1, s1) \<Rightarrow>
          (case find_message (\<lambda>m. id_m m = userMessageId (lmSession s1)) (messages_lm (lmSession s1)) of
             Inl e \<Rightarrow> \<lparr> yielded = [], session_after = s1, uuid_after = n1, thrown = Some e \<rparr>
           | Inr currentUserMsg \<Rightarrow>
               (let assistantId = modelAMessageId (lmSession s1);
                    s2 = (if retry then beginRetry s1 else s1)
                in if \<not> ok resp
                   then (case error_responseV2 h a resp of
                           (evs, err) \<Rightarrow>
                             \<lparr> yielded = evs, session_after = s2, uuid_after = n1, thrown = err \<rparr>)
                   else
                     (let s3 = s2\<lparr> doesSessionExist := True \<rparr>
                      in case find_message (\<lambda>msg. id_m msg \<noteq> [] \<and> id_m msg = assistantId)
                                (messages_lm (lmSession s3)) of
                           Inl e \<Rightarrow>
                             \<lparr> yielded = [], session_after = s3, uuid_after = n1, thrown = Some e \<rparr>
                         | Inr found \<Rightarrow>
                             (let (i, ph, ms) =
                                    (case found of
                                       Some (j, msg) \<Rightarrow> (j, msg, messages_lm (lmSession s3))
                                     | None \<Rightarrow>
                                         (length (messages_lm (lmSession s3)),
                                          lazy_placeholder assistantId,
                                          messages_lm (lmSession s3) @ [Some (lazy_placeholder assistantId)]))
                              in case read_loop h (Some ph) [] (chunks resp) (stream_fails resp) of
                                   (evs, ph', err) \<Rightarrow>
                                     \<lparr> yielded = evs,
                                       session_after = set_messages (ms[i := ph']) s3,
                                       uuid_after = n1, thrown = err \<rparr>)))))"

text \<open>
  The legacy \<^verbatim>\<open>runInference\<close>. Its payload is \<^verbatim>\<open>session.lmSession\<close> itself, so the lookup
  after the response reads the array as the retry step left it; a lookup that finds
  nothing leaves the placeholder \<^verbatim>\<open>undefined\<close>.
\<close>

definition runInference ::
  "host \<Rightarrow> auth_env \<Rightarrow> response \<Rightarrow> nat \<Rightarrow> chat_session \<Rightarrow> chat_message list option \<Rightarrow> bool \<Rightarrow> turn" where
  "runInference h a resp n s messagesOverride retry =
     (case apply_override h n s messagesOverride of
        (Some e, n1, s1) \<Rightarrow> \<lparr> yielded = [], session_after = s1, uuid_after = n1, thrown = Some e \<rparr>
      | (None, n1, s1) \<Rightarrow>
          (let s2 = (if retry then beginRetry s1 else s1)
           in if \<not> ok resp
              then (case error_response h a resp of
                      (evs, err) \<Rightarrow>
                        \<lparr> yielded = evs, session_after = s2, uuid_after = n1, thrown = err \<rparr>)
              else
                (let s3 = s2\<lparr> doesSessionExist := True \<rparr>
                 in case find_message
                           (\<lambda>msg. id_m msg \<noteq> [] \<and> id_m msg = modelAMessageId (lmSession s3))
                           (messages_lm (lmSession s3)) of
                      Inl e \<Rightarrow>
                        \<lparr> yielded = [], session_after = s3, uuid_after = n1, thrown = Some e \<rparr>
                    | Inr found \<Rightarrow>
                        (case read_loop h (map_option snd found) [] (chunks resp) (stream_fails resp) of
                           (evs, ph', err) \<Rightarrow>
                             \<lparr> yielded = evs,
                               session_after =
                                 (case found of
                                    None \<Rightarrow> s3
                                  | Some (i, msg) \<Rightarrow>
                                      set_messages ((messages_lm (lmSession s3))[i := ph']) s3),
                               uuid_after = n1, thrown = err \<rparr>))))"

text \<open>
  \<^verbatim>\<open>Chat.sendMessage\<close>: the message is appended, then the turn runs without an override.
\<close>

definition chat_sendMessage ::
  "host \<Rightarrow> auth_env \<Rightarrow> response \<Rightarrow> nat \<Rightarrow> chat_session \<Rightarrow> chat_message \<Rightarrow> bool \<Rightarrow> turn" where
  "chat_sendMessage h a resp n s message retry =
     (case sendMessage h n s message of
        Inl e \<Rightarrow> \<lparr> yielded = [], session_after = s, uuid_after = n, thrown = Some e \<rparr>
      | Inr (n', s') \<Rightarrow> runInferenceV2 h a resp n' s' None retry)"

section \<open>Dereferencing decoder\<close>

definition is_digit :: "char \<Rightarrow> bool" where
  "is_digit c \<longleftrightarrow> 0x30 \<le> (of_char c :: nat) \<and> (of_char c :: nat) \<le> 0x39"

text \<open>
  \<^verbatim>\<open>value.match(/^\$@(\d+)$/)\<close>: the capture group when the whole string is \<^verbatim>\<open>$@\<close>
  followed by one or more decimal digits.
\<close>

definition ref_id :: "string \<Rightarrow> string option" where
  "ref_id s =
     (if take 2 s = ''$@'' \<and> drop 2 s \<noteq> [] \<and> list_all is_digit (drop 2 s)
      then Some (drop 2 s) else None)"

text \<open>The first error of a list of results, or all the values.\<close>

fun collect :: "(error + 'a) list \<Rightarrow> error + 'a list" where
  "collect [] = Inr []"
| "collect (r # rs) =
     (case r of
        Inl e \<Rightarrow> Inl e
      | Inr v \<Rightarrow> (case collect rs of Inl e \<Rightarrow> Inl e | Inr vs \<Rightarrow> Inr (v # vs)))"

text \<open>
  The object that the loop \<^verbatim>\<open>newObj[key] = ...\<close> builds from the keys and the resolved
  values. An assignment to the key \<^verbatim>\<open>__proto__\<close> of an object literal runs the setter
  that \<^verbatim>\<open>Object.prototype\<close> inherits to it and creates no own property.
\<close>

definition assign_all :: "string list \<Rightarrow> json list \<Rightarrow> (string \<times> json) list" where
  "assign_all ks vs = filter (\<lambda>(k, v). k \<noteq> ''__proto__'') (zip ks vs)"

text \<open>
  The inner function \<^verbatim>\<open>dereference\<close> over the mapping \<^verbatim>\<open>dataMap\<close>. The first argument
  bounds the depth of the recursion, as the engine's stack does: at depth 0 the call
  fails with a RangeError.
\<close>

fun dereference :: "nat \<Rightarrow> (string \<Rightarrow> json option) \<Rightarrow> json \<Rightarrow> error + json" where
  "dereference 0 dataMap v = Inl RangeError"
| "dereference (Suc d) dataMap v =
     (case v of
        JStr s \<Rightarrow>
          (case ref_id s of
             Some refId \<Rightarrow>
               (case dataMap refId of
                  Some target \<Rightarrow> dereference d dataMap target
                | None \<Rightarrow> Inr JNull)
           | None \<Rightarrow> Inr v)
      | JArr items \<Rightarrow>
          (case collect (map (dereference d dataMap) items) of
             Inl e \<Rightarrow> Inl e
           | Inr items' \<Rightarrow> Inr (JArr items'))
      | JObj kvs \<Rightarrow>
          (case collect (map (\<lambda>kv. dereference d dataMap (snd kv)) kvs) of
             Inl e \<Rightarrow> Inl e
           | Inr vs \<Rightarrow> Inr (JObj (assign_all (map fst kvs) vs)))
      | _ \<Rightarrow> Inr v)"

text \<open>
  The loop \<^verbatim>\<open>for (const line of lines)\<close> of \<^verbatim>\<open>parseAndDereference\<close>, which fills
  \<^verbatim>\<open>dataMap\<close>.
\<close>

fun build_map ::
  "host \<Rightarrow> string list \<Rightarrow> (string \<Rightarrow> json option) \<Rightarrow> error + (string \<Rightarrow> json option)" where
  "build_map h [] dataMap = Inr dataMap"
| "build_map h (line # lines) dataMap =
     (if line = [] then build_map h lines dataMap
      else case indexOf line (CHR '':'') of
             None \<Rightarrow> build_map h lines dataMap
           | Some separatorIndex \<Rightarrow>
               (let ident = take separatorIndex line;
                    content' = drop (separatorIndex + 1) line
                in if take 1 content' \<in> {''{'', ''['', [CHR 0x22]}
                   then (case JSON_parse h content' of
                           None \<Rightarrow> Inl (ParseFailure ident content')
                         | Some v \<Rightarrow> build_map h lines (dataMap(ident \<mapsto> v)))
                   else build_map h lines dataMap))"

definition parseAndDereference :: "host \<Rightarrow> nat \<Rightarrow> string \<Rightarrow> error + json" where
  "parseAndDereference h depth responseText =
     (if responseText = [] then Inr JNull
      else case build_map h (split_nl (trim responseText)) Map.empty of
             Inl e \<Rightarrow> Inl e
           | Inr dataMap \<Rightarrow>
               (case dataMap ''0'' of
                  None \<Rightarrow> Inl RootMissing
                | Some rootValue \<Rightarrow> dereference depth dataMap rootValue))"

section \<open>A JSON reader for the examples\<close>

text \<open>
  \<open>json_parse\<close> reads JSON text by the grammar of RFC 8259. It stands for
  \<^verbatim>\<open>JSON.parse\<close> in the concrete examples; the general theorems hold for every host. A
  number is its exact decimal value, an escape \<^verbatim>\<open>\uXXXX\<close> is read when the code is below
  256, and the members of an object keep the order of the text.
\<close>

definition json_ws :: "char \<Rightarrow> bool" where
  "json_ws c \<longleftrightarrow> (of_char c :: nat) \<in> {0x20, 0x09, 0x0A, 0x0D}"

definition skip_ws :: "string \<Rightarrow> string" where
  "skip_ws s = dropWhile json_ws s"

definition digits_value :: "string \<Rightarrow> nat" where
  "digits_value ds = foldl (\<lambda>acc c. 10 * acc + ((of_char c :: nat) - 0x30)) 0 ds"

definition hex_digit :: "char \<Rightarrow> nat option" where
  "hex_digit c =
     (let n = (of_char c :: nat)
      in if 0x30 \<le> n \<and> n \<le> 0x39 then Some (n - 0x30)
         else if 0x41 \<le> n \<and> n \<le> 0x46 then Some (n - 0x41 + 10)
         else if 0x61 \<le> n \<and> n \<le> 0x66 then Some (n - 0x61 + 10)
         else None)"

fun hex_value :: "nat \<Rightarrow> string \<Rightarrow> nat option" where
  "hex_value acc [] = Some acc"
| "hex_value acc (c # cs) =
     (case hex_digit c of None \<Rightarrow> None | Some d \<Rightarrow> hex_value (16 * acc + d) cs)"

definition unescape :: "char \<Rightarrow> char option" where
  "unescape c =
     (if c = CHR 0x22 then Some (CHR 0x22)
      else if c = CHR 0x5C then Some (CHR 0x5C)
      else if c = CHR ''/'' then Some (CHR ''/'')
      else if c = CHR ''b'' then Some (CHR 0x08)
      else if c = CHR ''f'' then Some (CHR 0x0C)
      else if c = CHR ''n'' then Some (CHR 0x0A)
      else if c = CHR ''r'' then Some (CHR 0x0D)
      else if c = CHR ''t'' then Some (CHR 0x09)
      else None)"

text \<open>The characters of a string after its opening quote, up to the closing quote.\<close>

fun read_string :: "string \<Rightarrow> string \<Rightarrow> (string \<times> string) option" where
  "read_string acc [] = None"
| "read_string acc [c] = (if c = CHR 0x22 then Some (rev acc, []) else None)"
| "read_string acc (c # e # cs) =
     (if c = CHR 0x22 then Some (rev acc, e # cs)
      else if c = CHR 0x5C
      then (if e = CHR ''u''
            then (if length cs < 4 then None
                  else (case hex_value 0 (take 4 cs) of
                          None \<Rightarrow> None
                        | Some n \<Rightarrow>
                            if n < 256 then read_string (char_of n # acc) (drop 4 cs) else None))
            else (case unescape e of
                    None \<Rightarrow> None
                  | Some x \<Rightarrow> read_string (x # acc) cs))
      else if (of_char c :: nat) < 0x20 then None
      else read_string (c # acc) (e # cs))"

definition read_sign :: "string \<Rightarrow> bool \<times> string" where
  "read_sign s = (if take 1 s = ''-'' then (True, drop 1 s) else (False, s))"

definition read_exponent :: "string \<Rightarrow> (int \<times> string) option" where
  "read_exponent s =
     (if take 1 s = ''e'' \<or> take 1 s = ''E''
      then (let s1 = drop 1 s;
                s2 = (if take 1 s1 = ''+'' \<or> take 1 s1 = ''-'' then drop 1 s1 else s1);
                ds = takeWhile is_digit s2
            in if ds = [] then None
               else Some (if take 1 s1 = ''-'' then - int (digits_value ds) else int (digits_value ds),
                          dropWhile is_digit s2))
      else Some (0, s))"

definition read_fraction :: "string \<Rightarrow> (rat \<times> string) option" where
  "read_fraction s =
     (if take 1 s = ''.''
      then (let ds = takeWhile is_digit (drop 1 s)
            in if ds = [] then None
               else Some (of_nat (digits_value ds) / 10 ^ length ds, dropWhile is_digit (drop 1 s)))
      else Some (0, s))"

definition read_number :: "string \<Rightarrow> (rat \<times> string) option" where
  "read_number s =
     (case read_sign s of
        (neg, s1) \<Rightarrow>
          (let ds = takeWhile is_digit s1
           in if ds = [] \<or> (1 < length ds \<and> take 1 ds = ''0'') then None
              else (case read_fraction (dropWhile is_digit s1) of
                      None \<Rightarrow> None
                    | Some (f, s2) \<Rightarrow>
                        (case read_exponent s2 of
                           None \<Rightarrow> None
                         | Some (e, s3) \<Rightarrow>
                             (let m = of_nat (digits_value ds) + f;
                                  x = (if 0 \<le> e then m * 10 ^ nat e else m / 10 ^ nat (- e))
                              in Some (if neg then - x else x, s3))))))"

text \<open>
  Setting a member as \<^verbatim>\<open>JSON.parse\<close> does for a repeated key: the later value, at the
  place of the first.
\<close>

fun set_member :: "string \<Rightarrow> json \<Rightarrow> (string \<times> json) list \<Rightarrow> (string \<times> json) list" where
  "set_member k v [] = [(k, v)]"
| "set_member k v (kv # kvs) = (if fst kv = k then (k, v) # kvs else kv # set_member k v kvs)"

text \<open>
  The values, by recursive descent. The first argument bounds the number of nested
  calls; \<open>json_parse\<close> passes more than the text can need.
\<close>

fun read_value :: "nat \<Rightarrow> string \<Rightarrow> (json \<times> string) option"
  and read_elements :: "nat \<Rightarrow> json list \<Rightarrow> string \<Rightarrow> (json \<times> string) option"
  and read_members :: "nat \<Rightarrow> (string \<times> json) list \<Rightarrow> string \<Rightarrow> (json \<times> string) option" where
  "read_value 0 s = None"
| "read_value (Suc n) s =
     (if take 1 s = ''{''
      then (if take 1 (skip_ws (drop 1 s)) = ''}''
            then Some (JObj [], drop 1 (skip_ws (drop 1 s)))
            else read_members n [] (skip_ws (drop 1 s)))
      else if take 1 s = ''[''
      then (if take 1 (skip_ws (drop 1 s)) = '']''
            then Some (JArr [], drop 1 (skip_ws (drop 1 s)))
            else read_elements n [] (skip_ws (drop 1 s)))
      else if take 1 s = [CHR 0x22]
      then (case read_string [] (drop 1 s) of
              None \<Rightarrow> None
            | Some (t, r) \<Rightarrow> Some (JStr t, r))
      else if take 4 s = ''true'' then Some (JBool True, drop 4 s)
      else if take 5 s = ''false'' then Some (JBool False, drop 5 s)
      else if take 4 s = ''null'' then Some (JNull, drop 4 s)
      else (case read_number s of
              None \<Rightarrow> None
            | Some (q, r) \<Rightarrow> Some (JNum q, r)))"
| "read_elements 0 acc s = None"
| "read_elements (Suc n) acc s =
     (case read_value n s of
        None \<Rightarrow> None
      | Some (v, r) \<Rightarrow>
          (if take 1 (skip_ws r) = '',''
           then read_elements n (acc @ [v]) (skip_ws (drop 1 (skip_ws r)))
           else if take 1 (skip_ws r) = '']''
           then Some (JArr (acc @ [v]), drop 1 (skip_ws r))
           else None))"
| "read_members 0 acc s = None"
| "read_members (Suc n) acc s =
     (if take 1 s = [CHR 0x22]
      then (case read_string [] (drop 1 s) of
              None \<Rightarrow> None
            | Some (k, r) \<Rightarrow>
                (if take 1 (skip_ws r) = '':''
                 then (case read_value n (skip_ws (drop 1 (skip_ws r))) of
                         None \<Rightarrow> None
                       | Some (v, r') \<Rightarrow>
                           (if take 1 (skip_ws r') = '',''
                            then read_members n (set_member k v acc) (skip_ws (drop 1 (skip_ws r')))
                            else if take 1 (skip_ws r') = ''}''
                            then Some (JObj (set_member k v acc), drop 1 (skip_ws r'))
                            else None))
                 else None))
      else None)"

definition json_parse :: "string \<Rightarrow> json option" where
  "json_parse s =
     (case read_value (Suc (length s)) (skip_ws s) of
        None \<Rightarrow> None
      | Some (v, r) \<Rightarrow> if skip_ws r = [] then Some v else None)"

section \<open>Notions of the statements and inputs for the examples\<close>

text \<open>
  A host for the examples: \<open>json_parse\<close>, a string conversion that is the identity on
  strings, identifiers \<^verbatim>\<open>u0\<close>, \<^verbatim>\<open>u00\<close>, ... and an upload that fails.
\<close>

definition example_host :: host where
  "example_host =
     \<lparr> JSON_parse = json_parse,
       ToString = (\<lambda>v. case v of JStr s \<Rightarrow> s | _ \<Rightarrow> ''[value]''),
       randomUUID = (\<lambda>n. CHR ''u'' # replicate (Suc n) (CHR ''0'')),
       r2_upload = (\<lambda>s att. Inl UploadFailed) \<rparr>"

text \<open>
  A session for the examples: a new session, and the same session after
  \<^verbatim>\<open>sendMessage\<close> with one user message.
\<close>

definition example_message :: chat_message where
  "example_message = \<lparr> role_c = ''user'', content_c = ''hi'', attachments = None, id_c = None \<rparr>"

definition fresh_session :: chat_session where
  "fresh_session = snd (createSession example_host 0 ''model'' ''chat'')"

definition example_session :: chat_session where
  "example_session =
     (case sendMessage example_host 1 fresh_session example_message of
        Inl e \<Rightarrow> fresh_session
      | Inr (n, s) \<Rightarrow> s)"

text \<open>Responses and authentication outcomes for the examples.\<close>

definition policy_response :: response where
  "policy_response =
     \<lparr> status_r = 422, headers = Map.empty, chunks = [''Unprocessable''], stream_fails = False \<rparr>"

definition rate_limit_response :: response where
  "rate_limit_response =
     \<lparr> status_r = 429, headers = [''ratelimit-modality'' \<mapsto> ''image''], chunks = [],
       stream_fails = False \<rparr>"

definition refresh_failure :: auth_env where
  "refresh_failure =
     \<lparr> browser_fails = False, provText = ''page'', provisional_user_id = None,
       clearance = ''token'', signup_ok = False, signup_text = ''denied'' \<rparr>"

definition refresh_success :: auth_env where
  "refresh_success =
     \<lparr> browser_fails = False, provText = ''page'', provisional_user_id = Some ''anon'',
       clearance = ''token'', signup_ok = True, signup_text = [] \<rparr>"

text \<open>Two stream records with the same string payload.\<close>

definition c0_line :: string where
  \<open>c0_line = ''c0:"x"''\<close>

definition a0_line :: string where
  \<open>a0_line = ''a0:"x"''\<close>

text \<open>
  The first two statements of \<^verbatim>\<open>sendMessage\<close>: the identifier the message has after
  \<^verbatim>\<open>if (!message.id) message.id = randomUUID()\<close>, and its attachments after
  \<^verbatim>\<open>if (!message.attachments) message.attachments = []\<close>.
\<close>

definition assigned_id :: "host \<Rightarrow> nat \<Rightarrow> chat_message \<Rightarrow> string" where
  "assigned_id h n message =
     (case id_c message of
        None \<Rightarrow> randomUUID h n
      | Some i \<Rightarrow> if i = [] then randomUUID h n else i)"

definition given_attachments :: "chat_message \<Rightarrow> attachment list" where
  "given_attachments message = (case attachments message of None \<Rightarrow> [] | Some as \<Rightarrow> as)"

text \<open>
  Whether a turn reaches its request: the steps before \<^verbatim>\<open>makeAuthedRequest\<close> throw
  nothing. In \<^verbatim>\<open>runInferenceV2\<close> these are the override and the lookup of the current
  user message, in \<^verbatim>\<open>runInference\<close> the override alone.
\<close>

definition request_sentV2 :: "host \<Rightarrow> nat \<Rightarrow> chat_session \<Rightarrow> chat_message list option \<Rightarrow> bool" where
  "request_sentV2 h n s messagesOverride =
     (case apply_override h n s messagesOverride of
        (Some e, n1, s1) \<Rightarrow> False
      | (None, n1, s1) \<Rightarrow>
          (case find_message (\<lambda>m. id_m m = userMessageId (lmSession s1))
                  (messages_lm (lmSession s1)) of
             Inl e \<Rightarrow> False
           | Inr currentUserMsg \<Rightarrow> True))"

definition request_sent :: "host \<Rightarrow> nat \<Rightarrow> chat_session \<Rightarrow> chat_message list option \<Rightarrow> bool" where
  "request_sent h n s messagesOverride =
     (case apply_override h n s messagesOverride of
        (Some e, n1, s1) \<Rightarrow> False
      | (None, n1, s1) \<Rightarrow> True)"

text \<open>A successful response whose body arrives in two chunks.\<close>

definition ok_response :: response where
  \<open>ok_response =
     \<lparr> status_r = 200, headers = Map.empty,
       chunks = [''a0:"hel'', ''lo"'' @ [newline] @ ''ad:"done"''], stream_fails = False \<rparr>\<close>

text \<open>
  A successful response whose stream holds an \<^verbatim>\<open>a0\<close>, a \<^verbatim>\<open>c0\<close>, an \<^verbatim>\<open>a3\<close> and an
  \<^verbatim>\<open>ad\<close> record.
\<close>

definition mixed_response :: response where
  \<open>mixed_response =
     \<lparr> status_r = 200, headers = Map.empty,
       chunks = [''a0:"x"'' @ [newline] @ ''c0:"x"'' @ [newline] @ ''a3:1'' @ [newline] @ ''ad:"done"''],
       stream_fails = False \<rparr>\<close>

text \<open>A successful response with an empty body.\<close>

definition empty_ok_response :: response where
  "empty_ok_response = \<lparr> status_r = 200, headers = Map.empty, chunks = [], stream_fails = False \<rparr>"

text \<open>An \<^verbatim>\<open>a2\<close> payload with an item of type \<^verbatim>\<open>image\<close>.\<close>

definition is_image :: "json \<Rightarrow> bool" where
  "is_image item = (case item of JObj kvs \<Rightarrow> own kvs ''type'' = JStr ''image'' | _ \<Rightarrow> False)"

definition has_image :: "json \<Rightarrow> bool" where
  "has_image d = (case d of JArr items \<Rightarrow> list_ex is_image items | _ \<Rightarrow> False)"

text \<open>
  The events that a turn without a placeholder can yield: those whose branch of
  \<^verbatim>\<open>processLine\<close> does not touch the placeholder.
\<close>

definition needs_no_placeholder :: "stream_event \<Rightarrow> bool" where
  "needs_no_placeholder ev \<longleftrightarrow>
     event ev \<noteq> ''ad''
     \<and> \<not> (event ev = ''a0'' \<and> is_string (data ev))
     \<and> \<not> (event ev = ''a2'' \<and> has_image (data ev))"

text \<open>
  The decoder as the specification describes it, over the whole text of the stream: the
  text is cut at the newlines only; every terminated record is trimmed and, unless it is
  empty, decoded; what follows the last newline is decoded as a final record when the
  stream ends, unless it is empty.
\<close>

fun process_records ::
  "host \<Rightarrow> wire_message option \<Rightarrow> string list \<Rightarrow> stream_event list \<times> wire_message option" where
  "process_records h ph [] = ([], ph)"
| "process_records h ph (l # ls) =
     (case (if trim l \<noteq> [] then processLine h ph (trim l) else (ph, None)) of
        (ph', result) \<Rightarrow>
          (case process_records h ph' ls of
             (evs, ph'') \<Rightarrow> (yield_result result @ evs, ph'')))"

definition decode_text ::
  "host \<Rightarrow> wire_message option \<Rightarrow> string \<Rightarrow> bool \<Rightarrow>
   stream_event list \<times> wire_message option \<times> error option" where
  "decode_text h ph text fails =
     (case process_records h ph (butlast (split_nl text)) of
        (evs, ph') \<Rightarrow>
          if fails then (evs, ph', Some TransportError)
          else if last (split_nl text) \<noteq> []
          then (case processLine h ph' (last (split_nl text)) of
                  (ph'', result) \<Rightarrow> (evs @ yield_result result, ph'', None))
          else (evs, ph', None))"

text \<open>Streams for the examples, as lists of chunks.\<close>

definition split_record :: "string list" where
  \<open>split_record = [''a0:"hel'', ''lo"'' @ [newline]]\<close>

definition unterminated_record :: "string list" where
  \<open>unterminated_record = [''ad:"done"'']\<close>

definition whole_record :: "string list" where
  \<open>whole_record = [''a0:"hello"'' @ [newline]]\<close>

text \<open>Payloads of the dereferencing format for the examples.\<close>

definition proto_payload :: string where
  \<open>proto_payload = ''0:{"__proto__":"x"}''\<close>

definition reference_payload :: string where
  \<open>reference_payload = ''0:"$@1"'' @ [newline] @ ''1:"hello"''\<close>

definition missing_reference_payload :: string where
  \<open>missing_reference_payload = ''0:{"a":"$@1"}''\<close>

definition rootless_payload :: string where
  \<open>rootless_payload = ''1:I[chunk]'' @ [newline] @ ''no colon here'' @ [newline] @ ''2:"x"''\<close>

definition malformed_payload :: string where
  \<open>malformed_payload = ''0:"ok"'' @ [newline] @ ''7:{bad''\<close>

section \<open>The retry step\<close>

lemma present_Nil [simp]: "present [] = []"
  by (simp add: present_def List.map_filter_simps)

lemma present_Cons [simp]:
  "present (x # xs) = (case x of None \<Rightarrow> present xs | Some m \<Rightarrow> m # present xs)"
  by (cases x) (simp_all add: present_def List.map_filter_simps)

lemma present_append [simp]: "present (xs @ ys) = present xs @ present ys"
  by (induction xs) (auto split: option.splits)

lemma example_session_ids:
  "map id_m (present (messages_lm (lmSession example_session))) = [''u00'', ''u000'']"
  by code_simp

lemma example_session_assistant: "modelAMessageId (lmSession example_session) = ''u000''"
  by code_simp

text \<open>
  C8. After the retry step no message that is present in the wire graph has the
  assistant-placeholder identifier the session had before the step: the messages that stay
  are exactly those whose identifier differs from it up to letter case, the array keeps its
  length, and the display history is the same.
\<close>

theorem beginRetry_removes_placeholder:
  "(\<forall>m \<in> set (present (messages_lm (lmSession (beginRetry s)))).
      id_m m \<noteq> modelAMessageId (lmSession s))
   \<and> present (messages_lm (lmSession (beginRetry s))) =
       filter (\<lambda>m. toLowerCase (id_m m) \<noteq> toLowerCase (modelAMessageId (lmSession s)))
         (present (messages_lm (lmSession s)))
   \<and> length (messages_lm (lmSession (beginRetry s))) = length (messages_lm (lmSession s))
   \<and> messages (beginRetry s) = messages s"
proof -
  let ?aid = "modelAMessageId (lmSession s)"
  have filt: "present (map (\<lambda>slot. case slot of None \<Rightarrow> None
                 | Some msg \<Rightarrow> if toLowerCase (id_m msg) = toLowerCase ?aid then None else Some msg) ms)
        = filter (\<lambda>m. toLowerCase (id_m m) \<noteq> toLowerCase ?aid) (present ms)" for ms
    by (induction ms) (auto split: option.splits)
  have p: "present (messages_lm (lmSession (beginRetry s))) =
       filter (\<lambda>m. toLowerCase (id_m m) \<noteq> toLowerCase ?aid) (present (messages_lm (lmSession s)))"
    using filt by (simp add: beginRetry_def Let_def)
  show ?thesis
    using p by (auto simp: beginRetry_def Let_def)
qed

theorem beginRetry_removes_placeholder_witness:
  "list_ex (\<lambda>m. id_m m = modelAMessageId (lmSession example_session))
        (present (messages_lm (lmSession example_session)))
   \<and> list_all (\<lambda>m. id_m m \<noteq> modelAMessageId (lmSession example_session))
        (present (messages_lm (lmSession (beginRetry example_session))))
   \<and> map id_m (present (messages_lm (lmSession (beginRetry example_session)))) = [''u00'']
   \<and> messages (beginRetry example_session) = messages example_session"
proof -
  have ex: "list_ex (\<lambda>m. id_m m = modelAMessageId (lmSession example_session))
        (present (messages_lm (lmSession example_session)))"
    using example_session_ids example_session_assistant
    by (auto simp: list_ex_iff map_eq_Cons_conv)
  have kept: "map id_m (present (messages_lm (lmSession (beginRetry example_session)))) = [''u00'']"
    by code_simp
  show ?thesis
    using beginRetry_removes_placeholder [of example_session] ex kept
    by (simp add: list_all_iff)
qed

section \<open>Remote rejection\<close>

lemma not_ok_422: "status_r resp = 422 \<Longrightarrow> \<not> ok resp"
  by (simp add: ok_def)

lemma beginRetry_subset:
  "set (present (messages_lm (lmSession (beginRetry s)))) \<subseteq> set (present (messages_lm (lmSession s)))"
proof -
  have "set (present (map (\<lambda>slot. case slot of None \<Rightarrow> None
                 | Some msg \<Rightarrow> if P msg then None else Some msg) ms)) \<subseteq> set (present ms)" for P ms
    by (induction ms) (auto split: option.splits)
  then show ?thesis by (simp add: beginRetry_def Let_def)
qed

lemma example_prep: "apply_override example_host 3 example_session None = (None, 3, example_session)"
  by (simp add: apply_override_def)

lemma example_cur:
  "find_message (\<lambda>m. id_m m = userMessageId (lmSession example_session))
     (messages_lm (lmSession example_session)) =
   Inr (Some (0, \<lparr> experimental_attachments = [], evaluationSessionId = Some ''u0'',
       content = ''hi'', role = ''user'', id_m = ''u00'', modelId = None,
       parentMessageIds = Some [], participantPosition = Some ''a'', status = ''pending'' \<rparr>))"
  by code_simp

text \<open>
  C2. A turn of \<^verbatim>\<open>runInferenceV2\<close> whose request was sent (the steps before it threw
  nothing) and whose response has status 422 and a readable body yields exactly the
  \<^verbatim>\<open>c0\<close> event with the terms-of-use message and then \<^verbatim>\<open>ad\<close> with data \<^verbatim>\<open>"err"\<close>, and
  ends without an exception. The response changes nothing in the session: the session is
  the one the request was sent from (after the retry step, if any), so every message of
  the wire graph, the placeholder included, is as it was and none is set to
  \<^verbatim>\<open>success\<close>.
\<close>

theorem policy_rejection:
  assumes st: "status_r resp = 422"
    and body: "\<not> stream_fails resp"
    and prep: "apply_override h n s messagesOverride = (None, n1, s1)"
    and cur: "find_message (\<lambda>m. id_m m = userMessageId (lmSession s1))
                (messages_lm (lmSession s1)) = Inr currentUserMsg"
  shows "yielded (runInferenceV2 h a resp n s messagesOverride retry) =
           [\<lparr> event = ''c0'', data = JStr tos_message \<rparr>, \<lparr> event = ''ad'', data = JStr ''err'' \<rparr>]
         \<and> thrown (runInferenceV2 h a resp n s messagesOverride retry) = None
         \<and> session_after (runInferenceV2 h a resp n s messagesOverride retry) =
             (if retry then beginRetry s1 else s1)
         \<and> set (present (messages_lm (lmSession
                (session_after (runInferenceV2 h a resp n s messagesOverride retry)))))
             \<subseteq> set (present (messages_lm (lmSession s1)))"
proof -
  have e: "error_responseV2 h a resp =
      ([\<lparr> event = ''c0'', data = JStr tos_message \<rparr>, \<lparr> event = ''ad'', data = JStr ''err'' \<rparr>], None)"
    using st body by (simp add: error_responseV2_def response_text_def)
  have r: "runInferenceV2 h a resp n s messagesOverride retry =
      \<lparr> yielded = [\<lparr> event = ''c0'', data = JStr tos_message \<rparr>, \<lparr> event = ''ad'', data = JStr ''err'' \<rparr>],
        session_after = (if retry then beginRetry s1 else s1), uuid_after = n1, thrown = None \<rparr>"
    using prep cur e not_ok_422 [OF st] by (simp add: runInferenceV2_def Let_def)
  show ?thesis
    unfolding r using beginRetry_subset [of s1] by simp
qed

theorem policy_rejection_witness:
  "status_r policy_response = 422
   \<and> yielded (runInferenceV2 example_host refresh_failure policy_response 3 example_session None False) =
       [\<lparr> event = ''c0'', data = JStr tos_message \<rparr>, \<lparr> event = ''ad'', data = JStr ''err'' \<rparr>]
   \<and> thrown (runInferenceV2 example_host refresh_failure policy_response 3 example_session None False) = None
   \<and> session_after (runInferenceV2 example_host refresh_failure policy_response 3 example_session None False)
       = example_session
   \<and> map status (present (messages_lm (lmSession example_session))) = [''pending'', ''pending'']"
proof -
  have st: "status_r policy_response = 422" by (simp add: policy_response_def)
  have body: "\<not> stream_fails policy_response" by (simp add: policy_response_def)
  have p: "map status (present (messages_lm (lmSession example_session))) = [''pending'', ''pending'']"
    by code_simp
  show ?thesis
    using policy_rejection [OF st body example_prep example_cur, of refresh_failure False] st p
    by simp
qed

text \<open>
  Every result of \<^verbatim>\<open>updateArenaAuth\<close> is an array, and an array is truthy: the test
  \<^verbatim>\<open>if (couldUpdateAuth)\<close> never takes its \<^verbatim>\<open>else\<close> branch.
\<close>

lemma updateArenaAuth_truthy: "updateArenaAuth a = Inr v \<Longrightarrow> truthy v"
  by (auto simp: updateArenaAuth_def split: if_splits option.splits)

lemma rate_limited_never_reports_failure:
  "fst (rate_limited a r) \<noteq>
     [\<lparr> event = ''a0'', data = JStr refresh_failed \<rparr>, \<lparr> event = ''ad'', data = JStr ''err'' \<rparr>]"
  by (auto simp: rate_limited_def retry_notice_def refresh_failed_def
      dest: updateArenaAuth_truthy split: sum.splits)

lemma rate_limited_success:
  "headers r ''ratelimit-modality'' = Some ''image'' \<Longrightarrow> updateArenaAuth a = Inr v \<Longrightarrow>
   rate_limited a r =
     ([\<lparr> event = ''a0'', data = JStr retry_notice \<rparr>, \<lparr> event = ''ad'', data = JStr ''retry'' \<rparr>], None)"
  by (simp add: rate_limited_def updateArenaAuth_truthy)

text \<open>The successful refresh, for comparison: the same two events.\<close>

lemma successful_refresh_example:
  "updateArenaAuth refresh_success = Inr (JArr [JBool True, JStr ''token'', JStr []])
   \<and> yielded (runInferenceV2 example_host refresh_success rate_limit_response 3 example_session None False) =
       [\<lparr> event = ''a0'', data = JStr retry_notice \<rparr>, \<lparr> event = ''ad'', data = JStr ''retry'' \<rparr>]"
  by code_simp

text \<open>
  C1. The response has status 429 and the header \<^verbatim>\<open>ratelimit-modality: image\<close>, and the
  refresh fails: no cookie \<^verbatim>\<open>provisional_user_id\<close> comes back, so \<^verbatim>\<open>updateArenaAuth\<close>
  returns \<^verbatim>\<open>[false, null, text]\<close>. The turn then yields the retry notice and \<^verbatim>\<open>ad\<close> with
  data \<^verbatim>\<open>"retry"\<close>, not the refresh-failed notice and \<^verbatim>\<open>"err"\<close> that the claim states.
\<close>

theorem failed_refresh_reported_as_retry:
  "updateArenaAuth refresh_failure = Inr (JArr [JBool False, JNull, JStr ''page''])
   \<and> yielded (runInferenceV2 example_host refresh_failure rate_limit_response 3 example_session None False) =
       [\<lparr> event = ''a0'', data = JStr retry_notice \<rparr>, \<lparr> event = ''ad'', data = JStr ''retry'' \<rparr>]"
  by code_simp

section \<open>The record codes of the decoder\<close>

text \<open>
  C4, as stated, fails: for the same placeholder and the same string payload, an
  \<^verbatim>\<open>a0\<close> record appends the payload to the text of the placeholder and a \<^verbatim>\<open>c0\<close> record
  leaves the placeholder as it is.
\<close>

theorem c0_appends_counterexample:
  "processLine example_host (Some (lazy_placeholder ''p'')) c0_line =
     (Some (lazy_placeholder ''p''), Some \<lparr> event = ''c0'', data = JStr ''x'' \<rparr>)
   \<and> processLine example_host (Some (lazy_placeholder ''p'')) a0_line =
     (Some ((lazy_placeholder ''p'')\<lparr> content := ''x'' \<rparr>), Some \<lparr> event = ''a0'', data = JStr ''x'' \<rparr>)
   \<and> content (lazy_placeholder ''p'') = []"
  by code_simp

text \<open>
  C4, amended. A record of at least four characters with code \<^verbatim>\<open>c0\<close> whose payload
  decodes is forwarded as a \<^verbatim>\<open>c0\<close> event with the decoded payload, and the placeholder
  is unchanged.
\<close>

theorem c0_forwarded_without_append:
  assumes "4 \<le> length line"
    and "take 2 line = ''c0''"
    and "indexOf line (CHR '':'') = Some i"
    and "JSON_parse h (drop (i + 1) line) = Some d"
  shows "processLine h ph line = (ph, Some \<lparr> event = ''c0'', data = d \<rparr>)"
  using assms by (simp add: processLine_def Let_def)

theorem c0_forwarded_without_append_witness:
  "4 \<le> length c0_line \<and> take 2 c0_line = ''c0'' \<and> indexOf c0_line (CHR '':'') = Some 2
   \<and> JSON_parse example_host (drop (2 + 1) c0_line) = Some (JStr ''x'')
   \<and> processLine example_host (Some (lazy_placeholder ''p'')) c0_line =
       (Some (lazy_placeholder ''p''), Some \<lparr> event = ''c0'', data = JStr ''x'' \<rparr>)"
proof -
  have a: "4 \<le> length c0_line" by code_simp
  have b: "take 2 c0_line = ''c0''" by code_simp
  have c: "indexOf c0_line (CHR '':'') = Some 2" by code_simp
  have d: "JSON_parse example_host (drop (2 + 1) c0_line) = Some (JStr ''x'')" by code_simp
  show ?thesis
    using c0_forwarded_without_append [OF a b c d, of "Some (lazy_placeholder ''p'')"] a b c d
    by simp
qed

section \<open>Turn bookkeeping\<close>

text \<open>\<^verbatim>\<open>sendMessage\<close> throws exactly when an upload of the conversion throws.\<close>

lemma sendMessage_throws_iff:
  "sendMessage h n s message = Inl e \<longleftrightarrow>
   convert_attachments h s (given_attachments message) = Inl e"
  by (cases "id_c message")
     (auto simp: sendMessage_def given_attachments_def Let_def
        convertChatMessageToLMMessage_def split: option.splits sum.splits)

text \<open>
  C3. When \<^verbatim>\<open>sendMessage\<close> is called with a message of role \<^verbatim>\<open>user\<close> and returns (its
  uploads succeed), the wire graph has grown by exactly two messages: the user message
  and one assistant placeholder with status \<^verbatim>\<open>pending\<close>, empty text and no attachments,
  whose parent list is exactly the identifier of the user message. The session's
  \<^verbatim>\<open>modelAMessageId\<close> is the identifier of that placeholder and \<^verbatim>\<open>userMessageId\<close> is the
  identifier of the user message.
\<close>

theorem sendMessage_pairs_placeholder:
  assumes user: "role_c message = ''user''"
    and up: "convert_attachments h s (given_attachments message) = Inr ws"
  shows "\<exists>n' s' u p.
           sendMessage h n s message = Inr (n', s')
         \<and> messages_lm (lmSession s') = messages_lm (lmSession s) @ [Some u, Some p]
         \<and> id_m u = assigned_id h n message \<and> role u = ''user''
         \<and> role p = ''assistant'' \<and> status p = ''pending'' \<and> content p = []
         \<and> experimental_attachments p = []
         \<and> parentMessageIds p = Some [assigned_id h n message]
         \<and> modelAMessageId (lmSession s') = id_m p
         \<and> userMessageId (lmSession s') = assigned_id h n message
         \<and> messages s' = messages s @
              [message\<lparr> id_c := Some (assigned_id h n message),
                        attachments := Some (given_attachments message) \<rparr>]"
  using assms
  by (cases "id_c message")
     (auto simp: sendMessage_def assigned_id_def given_attachments_def Let_def
        convertChatMessageToLMMessage_def addFillerAssistantMessage_def push_wire_def
        fillerMessage_def split: option.splits)

theorem sendMessage_pairs_placeholder_witness:
  "role_c example_message = ''user''
   \<and> convert_attachments example_host fresh_session (given_attachments example_message) = Inr []
   \<and> (\<exists>n' s' u p.
           sendMessage example_host 1 fresh_session example_message = Inr (n', s')
         \<and> messages_lm (lmSession s') = messages_lm (lmSession fresh_session) @ [Some u, Some p]
         \<and> id_m u = ''u00'' \<and> role u = ''user''
         \<and> role p = ''assistant'' \<and> status p = ''pending'' \<and> content p = []
         \<and> experimental_attachments p = []
         \<and> parentMessageIds p = Some [''u00'']
         \<and> modelAMessageId (lmSession s') = id_m p
         \<and> userMessageId (lmSession s') = ''u00'')"
proof -
  have user: "role_c example_message = ''user''" by code_simp
  have up: "convert_attachments example_host fresh_session (given_attachments example_message) = Inr []"
    by code_simp
  have i: "assigned_id example_host 1 example_message = ''u00''" by code_simp
  show ?thesis
    using sendMessage_pairs_placeholder [OF user up, of 1] user up
    unfolding i by blast
qed

section \<open>The exists flag\<close>

lemma sendMessage_exists:
  "sendMessage h n s message = Inr (n', s') \<Longrightarrow> doesSessionExist s' = doesSessionExist s"
  by (cases "id_c message")
     (auto simp: sendMessage_def Let_def addFillerAssistantMessage_def push_wire_def
        split: option.splits sum.splits if_splits)

lemma send_all_exists:
  "send_all h n s msgs = (r, n', s') \<Longrightarrow> doesSessionExist s' = doesSessionExist s"
proof (induction msgs arbitrary: n s)
  case Nil
  then show ?case by simp
next
  case (Cons msg msgs)
  show ?case
  proof (cases "sendMessage h n s msg")
    case (Inl e)
    with Cons.prems show ?thesis by simp
  next
    case (Inr p)
    obtain n1 s1 where p: "p = (n1, s1)" by (cases p)
    from Cons.prems Inr p have "send_all h n1 s1 msgs = (r, n', s')" by simp
    from Cons.IH [OF this] sendMessage_exists [of h n s msg n1 s1] Inr p
    show ?thesis by simp
  qed
qed

lemma apply_override_exists:
  "apply_override h n s ov = (r, n', s') \<Longrightarrow> doesSessionExist s' = doesSessionExist s"
  by (cases ov) (auto simp: apply_override_def dest: send_all_exists)

lemma beginRetry_exists: "doesSessionExist (beginRetry s) = doesSessionExist s"
  by (simp add: beginRetry_def Let_def)

lemma runInferenceV2_exists:
  "doesSessionExist (session_after (runInferenceV2 h a resp n s ov retry)) =
     (doesSessionExist s \<or> (request_sentV2 h n s ov \<and> ok resp))"
proof -
  obtain r n1 s1 where ao: "apply_override h n s ov = (r, n1, s1)"
    by (cases "apply_override h n s ov") auto
  have f: "doesSessionExist s1 = doesSessionExist s"
    using apply_override_exists [OF ao] .
  show ?thesis
    using ao f
    by (auto simp: runInferenceV2_def request_sentV2_def Let_def beginRetry_exists set_messages_def
        split: option.splits sum.splits prod.splits)
qed

lemma runInference_exists:
  "doesSessionExist (session_after (runInference h a resp n s ov retry)) =
     (doesSessionExist s \<or> (request_sent h n s ov \<and> ok resp))"
proof -
  obtain r n1 s1 where ao: "apply_override h n s ov = (r, n1, s1)"
    by (cases "apply_override h n s ov") auto
  have f: "doesSessionExist s1 = doesSessionExist s"
    using apply_override_exists [OF ao] .
  show ?thesis
    using ao f
    by (auto simp: runInference_def request_sent_def Let_def beginRetry_exists set_messages_def
        split: option.splits sum.splits prod.splits)
qed

text \<open>
  C9. The flag \<^verbatim>\<open>doesSessionExist\<close> after a turn holds exactly when it held before, or the
  request of the turn was sent and its response is \<^verbatim>\<open>ok\<close>: a turn whose response is not
  \<^verbatim>\<open>ok\<close>, or that throws before its request, leaves the flag as it was, and no turn sets
  it back to false. \<^verbatim>\<open>sendMessage\<close> does not change the flag. \<^verbatim>\<open>shuffleSession\<close> gives
  the session a new identifier and sets the flag to false, and a new session starts with
  the flag false.
\<close>

theorem exists_flag_lifecycle:
  "doesSessionExist (session_after (runInferenceV2 h a resp n s ov retry)) =
     (doesSessionExist s \<or> (request_sentV2 h n s ov \<and> ok resp))
   \<and> doesSessionExist (session_after (runInference h a resp n s ov retry)) =
     (doesSessionExist s \<or> (request_sent h n s ov \<and> ok resp))
   \<and> (\<forall>n' s'. sendMessage h n s message = Inr (n', s') \<longrightarrow> doesSessionExist s' = doesSessionExist s)
   \<and> \<not> doesSessionExist (snd (shuffleSession h n s))
   \<and> sessionId (snd (shuffleSession h n s)) = randomUUID h n
   \<and> id_lm (lmSession (snd (shuffleSession h n s))) = randomUUID h n
   \<and> \<not> doesSessionExist (snd (createSession h n model_id chatModality))"
  using runInferenceV2_exists [of h a resp n s ov retry] runInference_exists [of h a resp n s ov retry]
    sendMessage_exists [of h n s message]
  by (simp add: shuffleSession_def createSession_def Let_def)

theorem exists_flag_lifecycle_witness:
  "\<not> doesSessionExist example_session
   \<and> \<not> ok policy_response
   \<and> \<not> doesSessionExist (session_after
         (runInferenceV2 example_host refresh_failure policy_response 3 example_session None False))
   \<and> ok ok_response \<and> request_sentV2 example_host 3 example_session None
   \<and> doesSessionExist (session_after
         (runInferenceV2 example_host refresh_failure ok_response 3 example_session None False))
   \<and> doesSessionExist (session_after
         (runInferenceV2 example_host refresh_failure policy_response 3
            (session_after
               (runInferenceV2 example_host refresh_failure ok_response 3 example_session None False))
            None False))
   \<and> \<not> doesSessionExist (snd (shuffleSession example_host 3
         (session_after
            (runInferenceV2 example_host refresh_failure ok_response 3 example_session None False))))"
proof -
  have a: "\<not> doesSessionExist example_session" by code_simp
  have b: "\<not> ok policy_response" by code_simp
  have c: "ok ok_response" by code_simp
  have d: "request_sentV2 example_host 3 example_session None" by code_simp
  let ?s = "session_after
     (runInferenceV2 example_host refresh_failure ok_response 3 example_session None False)"
  show ?thesis
    using exists_flag_lifecycle [of example_host refresh_failure policy_response 3 example_session None False]
      exists_flag_lifecycle [of example_host refresh_failure ok_response 3 example_session None False]
      exists_flag_lifecycle [of example_host refresh_failure policy_response 3 ?s None False]
      exists_flag_lifecycle [of example_host refresh_failure ok_response 3 ?s None False]
      a b c d
    by simp
qed

section \<open>Reassembly of the stream\<close>

lemma split_nl_not_Nil [simp]: "split_nl s \<noteq> []"
  by (induction s) (auto split: list.splits)

lemma indexOf_None_iff: "indexOf s c = None \<longleftrightarrow> c \<notin> set s"
  by (induction s) auto

lemma split_nl_no_newline: "newline \<notin> set s \<Longrightarrow> split_nl s = [s]"
  by (induction s) auto

lemma split_nl_at_index:
  "indexOf s newline = Some b \<Longrightarrow> split_nl s = take b s # split_nl (drop (Suc b) s)"
proof (induction s arbitrary: b)
  case Nil
  then show ?case by simp
next
  case (Cons c s)
  show ?case
  proof (cases "c = newline")
    case True
    with Cons.prems show ?thesis by simp
  next
    case False
    with Cons.prems obtain b' where b: "indexOf s newline = Some b'" "b = Suc b'"
      by auto
    from Cons.IH [OF b(1)] False b(2) show ?thesis by simp
  qed
qed

lemma last_split_nl_no_newline: "newline \<notin> set (last (split_nl s))"
proof (induction s)
  case Nil
  then show ?case by simp
next
  case (Cons c s)
  then show ?case
    by (cases "split_nl s") (auto split: list.splits)
qed

lemma split_nl_append:
  "split_nl (a @ b) = butlast (split_nl a) @ split_nl (last (split_nl a) @ b)"
proof (induction a)
  case Nil
  then show ?case by simp
next
  case (Cons c a)
  show ?case
  proof (cases "c = newline")
    case True
    with Cons show ?thesis by simp
  next
    case False
    obtain l ls where sa: "split_nl a = l # ls" by (cases "split_nl a") auto
    show ?thesis
    proof (cases ls)
      case Nil
      with sa Cons False show ?thesis by simp
    next
      case (Cons l' ls')
      with sa Cons.IH False show ?thesis
        by (cases "split_nl (a @ b)") auto
    qed
  qed
qed

lemma process_records_append:
  "process_records h ph (xs @ ys) =
     (case process_records h ph xs of
        (evs, ph') \<Rightarrow>
          (case process_records h ph' ys of (evs', ph'') \<Rightarrow> (evs @ evs', ph'')))"
  by (induction xs arbitrary: ph) (auto split: prod.splits)

lemma drain_records:
  "drain h ph buffer =
     (case process_records h ph (butlast (split_nl buffer)) of
        (evs, ph') \<Rightarrow> (evs, ph', last (split_nl buffer)))"
proof (induction h ph buffer rule: drain.induct)
  case (1 h ph buffer)
  show ?case
  proof (cases "indexOf buffer newline")
    case None
    then have "split_nl buffer = [buffer]"
      by (simp add: indexOf_None_iff split_nl_no_newline)
    with None show ?thesis by (simp add: drain.simps [of h ph buffer])
  next
    case (Some boundary)
    obtain ph1 r where step: "(if trim (take boundary buffer) \<noteq> []
        then processLine h ph (trim (take boundary buffer)) else (ph, None)) = (ph1, r)"
      by (cases "if trim (take boundary buffer) \<noteq> []
        then processLine h ph (trim (take boundary buffer)) else (ph, None)") auto
    have sp: "split_nl buffer = take boundary buffer # split_nl (drop (boundary + 1) buffer)"
      using split_nl_at_index [OF Some] by simp
    have ih: "drain h ph1 (drop (boundary + 1) buffer) =
       (case process_records h ph1 (butlast (split_nl (drop (boundary + 1) buffer))) of
          (evs, ph') \<Rightarrow> (evs, ph', last (split_nl (drop (boundary + 1) buffer))))"
      using "1.IH" [OF Some step [symmetric]] .
    show ?thesis
      using Some step ih sp
      by (simp add: drain.simps [of h ph buffer] split: prod.splits)
  qed
qed

lemma read_loop_decode:
  "newline \<notin> set buffer \<Longrightarrow>
   read_loop h ph buffer cs fails = decode_text h ph (buffer @ concat cs) fails"
proof (induction cs arbitrary: ph buffer)
  case Nil
  then show ?case
    by (simp add: decode_text_def split_nl_no_newline split: prod.splits)
next
  case (Cons c cs)
  let ?b1 = "last (split_nl (buffer @ c))"
  obtain evs1 ph1 where pr: "process_records h ph (butlast (split_nl (buffer @ c))) = (evs1, ph1)"
    by (cases "process_records h ph (butlast (split_nl (buffer @ c)))") auto
  have d: "drain h ph (buffer @ c) = (evs1, ph1, ?b1)"
    using pr by (simp add: drain_records)
  have ih: "read_loop h ph1 ?b1 cs fails = decode_text h ph1 (?b1 @ concat cs) fails"
    by (rule Cons.IH) (rule last_split_nl_no_newline)
  have sp: "split_nl (buffer @ c @ concat cs) =
      butlast (split_nl (buffer @ c)) @ split_nl (?b1 @ concat cs)"
    using split_nl_append [of "buffer @ c" "concat cs"] by simp
  have bl: "butlast (split_nl (buffer @ c @ concat cs)) =
      butlast (split_nl (buffer @ c)) @ butlast (split_nl (?b1 @ concat cs))"
    unfolding sp by (simp add: butlast_append)
  have la: "last (split_nl (buffer @ c @ concat cs)) = last (split_nl (?b1 @ concat cs))"
    unfolding sp by simp
  show ?case
    using d ih pr
    by (simp add: decode_text_def bl la process_records_append split: prod.splits)
qed

lemma short_record_dropped: "length line < 4 \<Longrightarrow> processLine h ph line = (ph, None)"
  by (simp add: processLine_def)

lemma split_record_decoded:
  "read_loop example_host (Some (lazy_placeholder ''p'')) [] split_record False =
     ([\<lparr> event = ''a0'', data = JStr ''hello'' \<rparr>],
      Some ((lazy_placeholder ''p'')\<lparr> content := ''hello'' \<rparr>), None)"
  by code_simp

lemma unterminated_record_decoded:
  "read_loop example_host (Some (lazy_placeholder ''p'')) [] unterminated_record False =
     ([\<lparr> event = ''ad'', data = JStr ''done'' \<rparr>],
      Some ((lazy_placeholder ''p'')\<lparr> status := ''success'' \<rparr>), None)"
  by code_simp

text \<open>
  C7. For every list of chunks, the read loop yields the events, leaves the placeholder
  and ends as the decoder of the whole text does: records are cut at newlines only, and
  the content after the last newline is decoded as a final record when the stream ends.
  Hence two partitions of the same text give the same result. A record shorter than four
  characters is dropped. The record \<^verbatim>\<open>a0:"hello"\<close> arriving as \<^verbatim>\<open>a0:"hel\<close> and
  \<^verbatim>\<open>lo"\<close> with a newline yields exactly one \<^verbatim>\<open>a0\<close> event with data \<^verbatim>\<open>hello\<close>, and a
  stream that ends after \<^verbatim>\<open>ad:"done"\<close> without a newline yields the \<^verbatim>\<open>ad\<close> event.
\<close>

theorem stream_reassembly:
  "read_loop h ph [] cs fails = decode_text h ph (concat cs) fails
   \<and> (concat cs = concat cs' \<longrightarrow> read_loop h ph [] cs fails = read_loop h ph [] cs' fails)
   \<and> (length line < 4 \<longrightarrow> processLine h ph line = (ph, None))
   \<and> read_loop example_host (Some (lazy_placeholder ''p'')) [] split_record False =
       ([\<lparr> event = ''a0'', data = JStr ''hello'' \<rparr>],
        Some ((lazy_placeholder ''p'')\<lparr> content := ''hello'' \<rparr>), None)
   \<and> read_loop example_host (Some (lazy_placeholder ''p'')) [] unterminated_record False =
       ([\<lparr> event = ''ad'', data = JStr ''done'' \<rparr>],
        Some ((lazy_placeholder ''p'')\<lparr> status := ''success'' \<rparr>), None)"
  using read_loop_decode [of "[]" h ph cs fails] read_loop_decode [of "[]" h ph cs' fails]
    short_record_dropped [of line h ph] split_record_decoded unterminated_record_decoded
  by simp

theorem stream_reassembly_witness:
  "concat split_record = concat whole_record
   \<and> read_loop example_host (Some (lazy_placeholder ''p'')) [] split_record False =
       read_loop example_host (Some (lazy_placeholder ''p'')) [] whole_record False
   \<and> read_loop example_host (Some (lazy_placeholder ''p'')) [] split_record False =
       decode_text example_host (Some (lazy_placeholder ''p'')) (concat split_record) False
   \<and> length ''a0:'' < 4
   \<and> processLine example_host (Some (lazy_placeholder ''p'')) ''a0:'' =
       (Some (lazy_placeholder ''p''), None)"
proof -
  have c: "concat split_record = concat whole_record" by code_simp
  have l: "length ''a0:'' < 4" by simp
  note t = stream_reassembly [of example_host "Some (lazy_placeholder ''p'')" split_record False
        whole_record "''a0:''"]
  from t have d: "read_loop example_host (Some (lazy_placeholder ''p'')) [] split_record False =
       decode_text example_host (Some (lazy_placeholder ''p'')) (concat split_record) False"
    by (rule conjunct1)
  from t c have e: "read_loop example_host (Some (lazy_placeholder ''p'')) [] split_record False =
       read_loop example_host (Some (lazy_placeholder ''p'')) [] whole_record False"
    by blast
  from t l have s: "processLine example_host (Some (lazy_placeholder ''p'')) ''a0:'' =
       (Some (lazy_placeholder ''p''), None)"
    by blast
  from c d e l s show ?thesis by (intro conjI)
qed

section \<open>The legacy turn after the retry step\<close>

lemma find_from_no_match:
  assumes "list_all (\<lambda>m. \<not> P m) (present xs)"
  shows "find_from P i xs = (if None \<in> set xs then Inl TypeError else Inr None)"
  using assms
proof (induction xs arbitrary: i)
  case Nil
  then show ?case by simp
next
  case (Cons x xs)
  then show ?case by (cases x) auto
qed

lemma beginRetry_no_match:
  "list_all (\<lambda>m. \<not> (id_m m \<noteq> [] \<and> id_m m = modelAMessageId (lmSession (beginRetry s))))
     (present (messages_lm (lmSession (beginRetry s))))"
proof -
  have "list_all (\<lambda>m. \<not> (id_m m \<noteq> [] \<and> id_m m = aid))
     (present (map (\<lambda>slot. case slot of None \<Rightarrow> None
                 | Some msg \<Rightarrow> if toLowerCase (id_m msg) = toLowerCase aid then None else Some msg) ms))"
    for aid ms
    by (induction ms) (auto split: option.splits)
  then show ?thesis by (simp add: beginRetry_def Let_def)
qed

lemma a2_items_None: "a2_items None items = (ph, e) \<Longrightarrow> ph = None"
  by (induction items) (auto split: json.splits if_splits)

lemma a2_items_None_image: "a2_items None items = (ph, None) \<Longrightarrow> \<not> list_ex is_image items"
  by (induction items) (auto simp: is_image_def split: json.splits if_splits)

lemma processLine_None:
  "processLine h None line = (ph, r) \<Longrightarrow> ph = None \<and> list_all needs_no_placeholder (yield_result r)"
  by (auto simp: processLine_def Let_def needs_no_placeholder_def a2_branch_def has_image_def
      split: if_splits option.splits prod.splits json.splits
      dest: a2_items_None a2_items_None_image)

lemma drain_None:
  "drain h ph buffer = (evs, ph', rest) \<Longrightarrow> ph = None \<Longrightarrow>
   ph' = None \<and> list_all needs_no_placeholder evs"
proof (induction h ph buffer arbitrary: evs ph' rest rule: drain.induct)
  case (1 h ph buffer)
  show ?case
  proof (cases "indexOf buffer newline")
    case None
    with "1.prems" show ?thesis by (simp add: drain.simps)
  next
    case (Some boundary)
    obtain ph1 r where step: "(if trim (take boundary buffer) \<noteq> []
        then processLine h ph (trim (take boundary buffer)) else (ph, None)) = (ph1, r)"
      by (cases "if trim (take boundary buffer) \<noteq> []
        then processLine h ph (trim (take boundary buffer)) else (ph, None)") auto
    obtain evs2 ph2 rest2 where rec: "drain h ph1 (drop (boundary + 1) buffer) = (evs2, ph2, rest2)"
      by (cases "drain h ph1 (drop (boundary + 1) buffer)") auto
    have p1: "ph1 = None \<and> list_all needs_no_placeholder (yield_result r)"
      using step "1.prems"(2) processLine_None [of h "trim (take boundary buffer)" ph1 r]
      by (auto split: if_splits)
    have ih: "ph2 = None \<and> list_all needs_no_placeholder evs2"
      using "1.IH" [OF Some step [symmetric] rec] p1 by simp
    have "drain h ph buffer = (yield_result r @ evs2, ph2, rest2)"
      using Some step rec by (simp add: drain.simps [of h ph buffer])
    with "1.prems"(1) p1 ih show ?thesis by auto
  qed
qed

lemma read_loop_None:
  "read_loop h None buffer cs fails = (evs, ph', err) \<Longrightarrow>
   ph' = None \<and> list_all needs_no_placeholder evs
   \<and> err = (if fails then Some TransportError else None)"
proof (induction cs arbitrary: buffer evs ph' err)
  case Nil
  then show ?case
    using processLine_None [of h buffer]
    by (auto split: if_splits prod.splits)
next
  case (Cons c cs)
  obtain evs1 ph1 b1 where d: "drain h None (buffer @ c) = (evs1, ph1, b1)"
    by (cases "drain h None (buffer @ c)") auto
  from drain_None [OF d] have p1: "ph1 = None" and q1: "list_all needs_no_placeholder evs1" by auto
  obtain evs2 ph2 e2 where r: "read_loop h None b1 cs fails = (evs2, ph2, e2)"
    by (cases "read_loop h None b1 cs fails") auto
  from Cons.IH [OF r] Cons.prems d p1 q1 r show ?case by auto
qed

text \<open>
  The same stream decoded without and with a placeholder: without one, exactly the events
  that need no placeholder are yielded, in the same order.
\<close>

lemma a2_items_Some: "a2_items (Some p) items = (ph, e) \<Longrightarrow> \<exists>p'. ph = Some p'"
  by (induction items arbitrary: p) (auto split: json.splits if_splits)

lemma a2_items_compare:
  "snd (a2_items None items) = None \<longleftrightarrow>
   snd (a2_items (Some p) items) = None \<and> \<not> list_ex is_image items"
  by (induction items arbitrary: p) (auto simp: is_image_def split: json.splits)

lemma processLine_Some: "\<exists>p'. fst (processLine h (Some p) line) = Some p'"
  by (auto simp: processLine_def Let_def a2_branch_def
      split: option.splits prod.splits json.splits dest: a2_items_Some)

lemma processLine_compare:
  "yield_result (snd (processLine h None line)) =
   filter needs_no_placeholder (yield_result (snd (processLine h (Some p) line)))"
proof -
  have a2: "snd (a2_branch None d) = None \<longleftrightarrow>
      snd (a2_branch (Some p) d) = None \<and> \<not> has_image d" for d
    using a2_items_compare [of _ p]
    by (cases d) (auto simp: a2_branch_def has_image_def)
  show ?thesis
  proof (cases "length line < 4")
    case True
    then show ?thesis by (simp add: processLine_def)
  next
    case False
    show ?thesis
    proof (cases "indexOf line (CHR '':'')")
      case None
      with False show ?thesis by (simp add: processLine_def Let_def)
    next
      case (Some i)
      show ?thesis
      proof (cases "JSON_parse h (drop (i + 1) line)")
        case None
        with False Some show ?thesis by (simp add: processLine_def Let_def)
      next
        case (Some d)
        obtain phn en where n: "a2_branch None d = (phn, en)" by (cases "a2_branch None d") auto
        obtain phs es where s: "a2_branch (Some p) d = (phs, es)"
          by (cases "a2_branch (Some p) d") auto
        from a2 [of d] n s have rel: "en = None \<longleftrightarrow> es = None \<and> \<not> has_image d" by simp
        from False \<open>indexOf line (CHR '':'') = Some i\<close> Some n s rel show ?thesis
          by (cases en; cases es)
             (auto simp: processLine_def Let_def needs_no_placeholder_def)
      qed
    qed
  qed
qed

lemma process_records_compare:
  "\<exists>evs p'. process_records h (Some p) ls = (evs, Some p')
      \<and> process_records h None ls = (filter needs_no_placeholder evs, None)"
proof (induction ls arbitrary: p)
  case Nil
  then show ?case by simp
next
  case (Cons l ls)
  show ?case
  proof (cases "trim l = []")
    case True
    from Cons [of p] obtain evs p' where "process_records h (Some p) ls = (evs, Some p')"
      "process_records h None ls = (filter needs_no_placeholder evs, None)" by blast
    with True show ?thesis by simp
  next
    case False
    obtain r where n: "processLine h None (trim l) = (None, r)"
      using processLine_None [of h "trim l"] by (cases "processLine h None (trim l)") auto
    obtain p1 r' where s: "processLine h (Some p) (trim l) = (Some p1, r')"
      using processLine_Some [of h p "trim l"] by (cases "processLine h (Some p) (trim l)") auto
    have c: "yield_result r = filter needs_no_placeholder (yield_result r')"
      using processLine_compare [of h "trim l" p] n s by simp
    from Cons [of p1] obtain evs p' where "process_records h (Some p1) ls = (evs, Some p')"
      "process_records h None ls = (filter needs_no_placeholder evs, None)" by blast
    with False n s c show ?thesis by simp
  qed
qed

lemma decode_text_compare:
  "fst (decode_text h None t fails) =
     filter needs_no_placeholder (fst (decode_text h (Some p) t fails))"
proof -
  obtain evs p1 where s: "process_records h (Some p) (butlast (split_nl t)) = (evs, Some p1)"
    and n: "process_records h None (butlast (split_nl t)) = (filter needs_no_placeholder evs, None)"
    using process_records_compare [of h p "butlast (split_nl t)"] by blast
  obtain phn r where ln: "processLine h None (last (split_nl t)) = (phn, r)"
    by (cases "processLine h None (last (split_nl t))") auto
  obtain phs r' where ls: "processLine h (Some p1) (last (split_nl t)) = (phs, r')"
    by (cases "processLine h (Some p1) (last (split_nl t))") auto
  have c: "yield_result r = filter needs_no_placeholder (yield_result r')"
    using processLine_compare [of h "last (split_nl t)" p1] ln ls by simp
  show ?thesis
    using n s ln ls c by (simp add: decode_text_def)
qed

lemma read_loop_compare:
  "fst (read_loop h None [] cs fails) =
     filter needs_no_placeholder (fst (read_loop h (Some p) [] cs fails))"
  using decode_text_compare [of h "concat cs" fails p]
  by (simp add: read_loop_decode [of "[]", simplified])

text \<open>
  C10, amended. In the legacy \<^verbatim>\<open>runInference\<close>, for a retry turn whose request is sent and
  answered with an \<^verbatim>\<open>ok\<close> response, the lookup of the placeholder never finds a message.
  When the wire array has a hole after the retry step (as it has whenever the step deleted
  the placeholder), the lookup itself throws the TypeError at the hole: the turn yields no
  event and ends with the TypeError before it reads the stream, whatever the stream
  holds. When the array has no hole, the placeholder is undefined and the turn does not end
  with a TypeError: \<^verbatim>\<open>processLine\<close> catches the TypeError of a record that needs the
  placeholder (\<^verbatim>\<open>ad\<close>, \<^verbatim>\<open>a0\<close> with a string, \<^verbatim>\<open>a2\<close> with an image item) and drops
  the record, and the stream continues: the turn reads the whole stream and yields exactly
  the events that a turn with a placeholder would yield from it, without those of the
  three kinds, in the same order. The session is the one the retry step left, with the
  exists flag set.
\<close>

theorem legacy_retry_without_placeholder:
  assumes prep: "apply_override h n s ov = (None, n1, s1)"
    and okr: "ok resp"
  shows "(None \<in> set (messages_lm (lmSession (beginRetry s1))) \<longrightarrow>
            thrown (runInference h a resp n s ov True) = Some TypeError
          \<and> yielded (runInference h a resp n s ov True) = [])
       \<and> (None \<notin> set (messages_lm (lmSession (beginRetry s1))) \<longrightarrow>
            thrown (runInference h a resp n s ov True) =
              (if stream_fails resp then Some TransportError else None)
          \<and> list_all needs_no_placeholder (yielded (runInference h a resp n s ov True))
          \<and> yielded (runInference h a resp n s ov True) =
              fst (read_loop h None [] (chunks resp) (stream_fails resp))
          \<and> yielded (runInference h a resp n s ov True) =
              filter needs_no_placeholder
                (fst (read_loop h (Some p) [] (chunks resp) (stream_fails resp)))
          \<and> session_after (runInference h a resp n s ov True) =
              (beginRetry s1)\<lparr> doesSessionExist := True \<rparr>)
       \<and> (list_ex (\<lambda>m. id_m m = modelAMessageId (lmSession s1)) (present (messages_lm (lmSession s1)))
            \<longrightarrow> None \<in> set (messages_lm (lmSession (beginRetry s1))))"
proof -
  let ?ms = "messages_lm (lmSession (beginRetry s1))"
  let ?P = "\<lambda>msg. id_m msg \<noteq> [] \<and> id_m msg = modelAMessageId (lmSession (beginRetry s1))"
  have f: "find_message ?P ?ms = (if None \<in> set ?ms then Inl TypeError else Inr None)"
    unfolding find_message_def
    by (rule find_from_no_match) (rule beginRetry_no_match)
  have s3: "messages_lm (lmSession (beginRetry s1\<lparr>doesSessionExist := True\<rparr>)) = ?ms"
    "modelAMessageId (lmSession (beginRetry s1\<lparr>doesSessionExist := True\<rparr>)) =
       modelAMessageId (lmSession (beginRetry s1))"
    by (simp_all add: beginRetry_def Let_def)
  have hole: "thrown (runInference h a resp n s ov True) = Some TypeError
          \<and> yielded (runInference h a resp n s ov True) = []" if "None \<in> set ?ms"
    using prep okr f that s3 by (simp add: runInference_def Let_def)
  have nohole: "thrown (runInference h a resp n s ov True) =
              (if stream_fails resp then Some TransportError else None)
          \<and> list_all needs_no_placeholder (yielded (runInference h a resp n s ov True))
          \<and> yielded (runInference h a resp n s ov True) =
              fst (read_loop h None [] (chunks resp) (stream_fails resp))
          \<and> yielded (runInference h a resp n s ov True) =
              filter needs_no_placeholder
                (fst (read_loop h (Some p) [] (chunks resp) (stream_fails resp)))
          \<and> session_after (runInference h a resp n s ov True) =
              (beginRetry s1)\<lparr> doesSessionExist := True \<rparr>"
    if nh: "None \<notin> set ?ms"
  proof -
    obtain evs ph' err where r: "read_loop h None [] (chunks resp) (stream_fails resp) = (evs, ph', err)"
      by (cases "read_loop h None [] (chunks resp) (stream_fails resp)") auto
    have y: "yielded (runInference h a resp n s ov True) = evs"
      and th: "thrown (runInference h a resp n s ov True) = err"
      and sa: "session_after (runInference h a resp n s ov True) =
              (beginRetry s1)\<lparr> doesSessionExist := True \<rparr>"
      using prep okr f nh s3 r by (simp_all add: runInference_def Let_def)
    have cmp: "evs = filter needs_no_placeholder
                (fst (read_loop h (Some p) [] (chunks resp) (stream_fails resp)))"
      using read_loop_compare [of h "chunks resp" "stream_fails resp" p] r by simp
    from read_loop_None [OF r] y th sa cmp r show ?thesis by simp
  qed
  have del: "None \<in> set ?ms"
    if "list_ex (\<lambda>m. id_m m = modelAMessageId (lmSession s1)) (present (messages_lm (lmSession s1)))"
  proof -
    have "list_ex (\<lambda>m. id_m m = aid) (present ms) \<Longrightarrow>
        None \<in> set (map (\<lambda>slot. case slot of None \<Rightarrow> None
                 | Some msg \<Rightarrow> if toLowerCase (id_m msg) = toLowerCase aid then None else Some msg) ms)"
      for aid ms
      by (induction ms) (auto split: option.splits)
    with that show ?thesis by (simp add: beginRetry_def Let_def)
  qed
  from hole nohole del show ?thesis by blast
qed

text \<open>
  C10, as stated, fails in both cases. With the placeholder in the graph, the retry turn
  ends with a TypeError although the stream holds no record at all; with no message to
  delete, the \<^verbatim>\<open>a0\<close> and \<^verbatim>\<open>ad\<close> records of the stream are dropped and no TypeError ends
  the turn.
\<close>

theorem legacy_retry_counterexample:
  "thrown (runInference example_host refresh_failure empty_ok_response 3 example_session None True)
     = Some TypeError
   \<and> yielded (runInference example_host refresh_failure empty_ok_response 3 example_session None True) = []
   \<and> chunks empty_ok_response = []
   \<and> thrown (runInference example_host refresh_failure ok_response 1 fresh_session None True) = None
   \<and> yielded (runInference example_host refresh_failure ok_response 1 fresh_session None True) = []"
  by code_simp

theorem legacy_retry_without_placeholder_witness:
  "apply_override example_host 3 example_session None = (None, 3, example_session)
   \<and> ok mixed_response
   \<and> list_ex (\<lambda>m. id_m m = modelAMessageId (lmSession example_session))
        (present (messages_lm (lmSession example_session)))
   \<and> None \<in> set (messages_lm (lmSession (beginRetry example_session)))
   \<and> thrown (runInference example_host refresh_failure mixed_response 3 example_session None True)
        = Some TypeError
   \<and> yielded (runInference example_host refresh_failure mixed_response 3 example_session None True) = []
   \<and> apply_override example_host 1 fresh_session None = (None, 1, fresh_session)
   \<and> None \<notin> set (messages_lm (lmSession (beginRetry fresh_session)))
   \<and> thrown (runInference example_host refresh_failure mixed_response 1 fresh_session None True) = None
   \<and> fst (read_loop example_host (Some (lazy_placeholder ''p'')) [] (chunks mixed_response)
          (stream_fails mixed_response)) =
       [\<lparr> event = ''a0'', data = JStr ''x'' \<rparr>, \<lparr> event = ''c0'', data = JStr ''x'' \<rparr>,
        \<lparr> event = ''a3'', data = JNum 1 \<rparr>, \<lparr> event = ''ad'', data = JStr ''done'' \<rparr>]
   \<and> yielded (runInference example_host refresh_failure mixed_response 1 fresh_session None True) =
       [\<lparr> event = ''c0'', data = JStr ''x'' \<rparr>, \<lparr> event = ''a3'', data = JNum 1 \<rparr>]
   \<and> list_all needs_no_placeholder
        (yielded (runInference example_host refresh_failure mixed_response 1 fresh_session None True))
   \<and> doesSessionExist
        (session_after (runInference example_host refresh_failure mixed_response 1 fresh_session None True))"
proof -
  have p1: "apply_override example_host 3 example_session None = (None, 3, example_session)"
    by (simp add: apply_override_def)
  have p2: "apply_override example_host 1 fresh_session None = (None, 1, fresh_session)"
    by (simp add: apply_override_def)
  have okr: "ok mixed_response" by code_simp
  have nf: "\<not> stream_fails mixed_response" by code_simp
  have ex: "list_ex (\<lambda>m. id_m m = modelAMessageId (lmSession example_session))
        (present (messages_lm (lmSession example_session)))"
    using example_session_ids example_session_assistant
    by (auto simp: list_ex_iff map_eq_Cons_conv)
  have nh: "None \<notin> set (messages_lm (lmSession (beginRetry fresh_session)))" by code_simp
  have full: "fst (read_loop example_host (Some (lazy_placeholder ''p'')) [] (chunks mixed_response)
          (stream_fails mixed_response)) =
       [\<lparr> event = ''a0'', data = JStr ''x'' \<rparr>, \<lparr> event = ''c0'', data = JStr ''x'' \<rparr>,
        \<lparr> event = ''a3'', data = JNum 1 \<rparr>, \<lparr> event = ''ad'', data = JStr ''done'' \<rparr>]"
    by code_simp
  have keep: "filter needs_no_placeholder
       [\<lparr> event = ''a0'', data = JStr ''x'' \<rparr>, \<lparr> event = ''c0'', data = JStr ''x'' \<rparr>,
        \<lparr> event = ''a3'', data = JNum 1 \<rparr>, \<lparr> event = ''ad'', data = JStr ''done'' \<rparr>] =
       [\<lparr> event = ''c0'', data = JStr ''x'' \<rparr>, \<lparr> event = ''a3'', data = JNum 1 \<rparr>]"
    by (simp add: needs_no_placeholder_def)
  note t1 = legacy_retry_without_placeholder [OF p1 okr, of refresh_failure "lazy_placeholder ''p''"]
  note t2 = legacy_retry_without_placeholder [OF p2 okr, of refresh_failure "lazy_placeholder ''p''"]
  from t1 ex have hole: "None \<in> set (messages_lm (lmSession (beginRetry example_session)))"
    by blast
  from t1 hole have a:
    "thrown (runInference example_host refresh_failure mixed_response 3 example_session None True)
       = Some TypeError
     \<and> yielded (runInference example_host refresh_failure mixed_response 3 example_session None True) = []"
    by blast
  from t2 nh have b:
    "thrown (runInference example_host refresh_failure mixed_response 1 fresh_session None True) =
       (if stream_fails mixed_response then Some TransportError else None)
     \<and> list_all needs_no_placeholder
          (yielded (runInference example_host refresh_failure mixed_response 1 fresh_session None True))
     \<and> yielded (runInference example_host refresh_failure mixed_response 1 fresh_session None True) =
          filter needs_no_placeholder
            (fst (read_loop example_host (Some (lazy_placeholder ''p'')) [] (chunks mixed_response)
               (stream_fails mixed_response)))
     \<and> session_after (runInference example_host refresh_failure mixed_response 1 fresh_session None True) =
          (beginRetry fresh_session)\<lparr> doesSessionExist := True \<rparr>"
    by blast
  from b nf have th:
    "thrown (runInference example_host refresh_failure mixed_response 1 fresh_session None True) = None"
    by simp
  from b have "yielded (runInference example_host refresh_failure mixed_response 1 fresh_session None True) =
          filter needs_no_placeholder
            (fst (read_loop example_host (Some (lazy_placeholder ''p'')) [] (chunks mixed_response)
               (stream_fails mixed_response)))"
    by blast
  then have y: "yielded (runInference example_host refresh_failure mixed_response 1 fresh_session None True) =
       [\<lparr> event = ''c0'', data = JStr ''x'' \<rparr>, \<lparr> event = ''a3'', data = JNum 1 \<rparr>]"
    by (simp only: full keep)
  from b have la: "list_all needs_no_placeholder
        (yielded (runInference example_host refresh_failure mixed_response 1 fresh_session None True))"
    by blast
  from b have de: "doesSessionExist
        (session_after (runInference example_host refresh_failure mixed_response 1 fresh_session None True))"
    by simp
  from a have a1:
    "thrown (runInference example_host refresh_failure mixed_response 3 example_session None True)
       = Some TypeError"
    and a2: "yielded (runInference example_host refresh_failure mixed_response 3 example_session None True) = []"
    by blast+
  from p1 okr ex hole a1 a2 p2 nh th full y la de show ?thesis by (intro conjI)
qed

section \<open>The dereferencing decoder\<close>

lemma collect_map_Inr [simp]: "collect (map Inr vs) = Inr vs"
  by (induction vs) auto

lemma collect_Inr: "collect rs = Inr vs \<longleftrightarrow> rs = map Inr vs"
proof
  show "collect rs = Inr vs \<Longrightarrow> rs = map Inr vs"
  proof (induction rs arbitrary: vs)
    case Nil
    then show ?case by auto
  next
    case (Cons r rs)
    then show ?case by (cases r) (auto split: sum.splits)
  qed
qed auto

text \<open>
  What a single call of \<^verbatim>\<open>dereference\<close> does, by the kind of value: a reference is
  replaced by the resolution of its target, or by \<^verbatim>\<open>null\<close> when the identifier is not in
  the mapping; other scalars are returned as they are; arrays and objects are resolved
  element by element.
\<close>

lemma dereference_reference:
  "ref_id s = Some refId \<Longrightarrow> dataMap refId = Some target \<Longrightarrow>
   dereference (Suc d) dataMap (JStr s) = dereference d dataMap target"
  by simp

lemma dereference_missing:
  "ref_id s = Some refId \<Longrightarrow> dataMap refId = None \<Longrightarrow>
   dereference (Suc d) dataMap (JStr s) = Inr JNull"
  by simp

lemma dereference_scalar:
  "v = JNull \<or> v = JUndefined \<or> (\<exists>b. v = JBool b) \<or> (\<exists>q. v = JNum q)
     \<or> (\<exists>s. v = JStr s \<and> ref_id s = None) \<Longrightarrow>
   dereference (Suc d) dataMap v = Inr v"
  by auto

lemma dereference_array:
  "dereference (Suc d) dataMap (JArr items) = Inr r \<longleftrightarrow>
   (\<exists>items'. r = JArr items' \<and> map (dereference d dataMap) items = map Inr items')"
  by (auto simp: collect_Inr split: sum.splits)

lemma dereference_object:
  "dereference (Suc d) dataMap (JObj kvs) = Inr r \<longleftrightarrow>
   (\<exists>vs. r = JObj (assign_all (map fst kvs) vs)
        \<and> map (\<lambda>kv. dereference d dataMap (snd kv)) kvs = map Inr vs)"
  by (auto simp: collect_Inr split: sum.splits)

text \<open>An object without the key \<^verbatim>\<open>__proto__\<close> keeps its keys, in order.\<close>

lemma assign_all_plain:
  "''__proto__'' \<notin> set ks \<Longrightarrow> length vs = length ks \<Longrightarrow>
   map fst (assign_all ks vs) = ks \<and> map snd (assign_all ks vs) = vs"
proof -
  assume a: "''__proto__'' \<notin> set ks" and l: "length vs = length ks"
  have "filter (\<lambda>(k, v). k \<noteq> ''__proto__'') (zip ks vs) = zip ks vs"
    using a by (auto simp: filter_id_conv dest: set_zip_leftD)
  with l show ?thesis by (simp add: assign_all_def)
qed

text \<open>No object that the decoder returns has an own member \<^verbatim>\<open>__proto__\<close>.\<close>

lemma dereference_drops_proto:
  "dereference d dataMap (JObj kvs) = Inr (JObj kvs') \<Longrightarrow> ''__proto__'' \<notin> fst ` set kvs'"
  by (cases d) (auto simp: assign_all_def split: sum.splits)

text \<open>The two examples of the specification.\<close>

lemma dereference_examples:
  "parseAndDereference example_host 10 reference_payload = Inr (JStr ''hello'')
   \<and> parseAndDereference example_host 10 missing_reference_payload = Inr (JObj [(''a'', JNull)])"
  by code_simp

text \<open>
  C5. The text \<^verbatim>\<open>0:{"__proto__":"x"}\<close> holds one record, an object with one member.
  \<^verbatim>\<open>JSON.parse\<close> gives the object that member as an own property, and the decoder
  returns an object without members: the structure is not preserved, as the claim says it
  is for every object.
\<close>

theorem proto_member_dropped:
  "json_parse (drop 2 proto_payload) = Some (JObj [(''__proto__'', JStr ''x'')])
   \<and> parseAndDereference example_host 10 proto_payload = Inr (JObj [])"
  by code_simp

lemma build_map_append:
  "build_map h (pre @ rest) dm =
     (case build_map h pre dm of Inl e \<Rightarrow> Inl e | Inr dm' \<Rightarrow> build_map h rest dm')"
  by (induction pre arbitrary: dm) (auto simp: Let_def split: option.splits)

lemma build_map_skip:
  assumes "line = [] \<or> indexOf line (CHR '':'') = None
           \<or> (\<exists>i. indexOf line (CHR '':'') = Some i
                   \<and> take 1 (drop (i + 1) line) \<notin> {''{'', ''['', [CHR 0x22]})"
  shows "build_map h (pre @ line # post) dm = build_map h (pre @ post) dm"
proof -
  have "build_map h (line # post) dm' = build_map h post dm'" for dm'
    using assms by (auto simp: Let_def)
  then show ?thesis by (simp add: build_map_append split: sum.splits)
qed

lemma build_map_failure:
  assumes "build_map h pre dm = Inr dm'"
    and "indexOf line (CHR '':'') = Some i"
    and "take 1 (drop (i + 1) line) \<in> {''{'', ''['', [CHR 0x22]}"
    and "JSON_parse h (drop (i + 1) line) = None"
  shows "build_map h (pre @ line # post) dm = Inl (ParseFailure (take i line) (drop (i + 1) line))"
proof -
  from assms(2) have "line \<noteq> []" by auto
  with assms show ?thesis by (simp add: build_map_append Let_def)
qed

text \<open>
  C6, amended. While the mapping is built, an empty line, a line without a colon and a
  line whose payload does not start with \<^verbatim>\<open>{\<close>, \<^verbatim>\<open>[\<close> or a double quote are skipped:
  the mapping is the one built without the line. The first data line whose payload
  \<^verbatim>\<open>JSON.parse\<close> rejects ends the decoder with an error that carries the identifier and
  the raw payload of that line. For every text that is not empty, an error of the loop is
  the error of the decoder, and a mapping without the identifier \<^verbatim>\<open>0\<close> makes the decoder
  fail with the root-missing error. The empty text returns \<^verbatim>\<open>null\<close>.
\<close>

theorem parseAndDereference_failures:
  "(line = [] \<or> indexOf line (CHR '':'') = None \<longrightarrow>
      build_map h (pre @ line # post) dm = build_map h (pre @ post) dm)
   \<and> (indexOf line (CHR '':'') = Some i
        \<and> take 1 (drop (i + 1) line) \<notin> {''{'', ''['', [CHR 0x22]} \<longrightarrow>
      build_map h (pre @ line # post) dm = build_map h (pre @ post) dm)
   \<and> (build_map h pre dm = Inr dm' \<and> indexOf line (CHR '':'') = Some i
        \<and> take 1 (drop (i + 1) line) \<in> {''{'', ''['', [CHR 0x22]}
        \<and> JSON_parse h (drop (i + 1) line) = None \<longrightarrow>
      build_map h (pre @ line # post) dm = Inl (ParseFailure (take i line) (drop (i + 1) line)))
   \<and> (responseText \<noteq> [] \<and> build_map h (split_nl (trim responseText)) Map.empty = Inl e \<longrightarrow>
      parseAndDereference h depth responseText = Inl e)
   \<and> (responseText \<noteq> [] \<and> build_map h (split_nl (trim responseText)) Map.empty = Inr dataMap
        \<and> dataMap ''0'' = None \<longrightarrow>
      parseAndDereference h depth responseText = Inl RootMissing)
   \<and> parseAndDereference h depth [] = Inr JNull"
proof -
  have a: "line = [] \<or> indexOf line (CHR '':'') = None \<longrightarrow>
      build_map h (pre @ line # post) dm = build_map h (pre @ post) dm"
    using build_map_skip [of line h pre post dm] by blast
  have b: "indexOf line (CHR '':'') = Some i
        \<and> take 1 (drop (i + 1) line) \<notin> {''{'', ''['', [CHR 0x22]} \<longrightarrow>
      build_map h (pre @ line # post) dm = build_map h (pre @ post) dm"
    using build_map_skip [of line h pre post dm] by blast
  have c: "build_map h pre dm = Inr dm' \<and> indexOf line (CHR '':'') = Some i
        \<and> take 1 (drop (i + 1) line) \<in> {''{'', ''['', [CHR 0x22]}
        \<and> JSON_parse h (drop (i + 1) line) = None \<longrightarrow>
      build_map h (pre @ line # post) dm = Inl (ParseFailure (take i line) (drop (i + 1) line))"
    using build_map_failure [of h pre dm dm' line i post] by blast
  have d: "responseText \<noteq> [] \<and> build_map h (split_nl (trim responseText)) Map.empty = Inl e \<longrightarrow>
      parseAndDereference h depth responseText = Inl e"
    by (simp add: parseAndDereference_def)
  have e: "responseText \<noteq> [] \<and> build_map h (split_nl (trim responseText)) Map.empty = Inr dataMap
        \<and> dataMap ''0'' = None \<longrightarrow>
      parseAndDereference h depth responseText = Inl RootMissing"
    by (simp add: parseAndDereference_def)
  have f: "parseAndDereference h depth [] = Inr JNull"
    by (simp add: parseAndDereference_def)
  from a b c d e f show ?thesis by (intro conjI)
qed

text \<open>
  C6, as stated, fails at the empty text: the loop over its lines builds the empty mapping,
  which has no record \<^verbatim>\<open>0\<close>, and the decoder returns \<^verbatim>\<open>null\<close>, not the root-missing
  error.
\<close>

theorem empty_input_counterexample:
  "build_map example_host (split_nl (trim [])) Map.empty = Inr Map.empty
   \<and> parseAndDereference example_host 10 [] = Inr JNull"
  by (simp add: parseAndDereference_def trim_def)

theorem parseAndDereference_failures_witness:
  \<open>parseAndDereference example_host 10 rootless_payload = Inl RootMissing
   \<and> parseAndDereference example_host 10 malformed_payload = Inl (ParseFailure ''7'' ''{bad'')
   \<and> build_map example_host ([] @ ''no colon here'' # [''0:"x"'']) Map.empty =
       build_map example_host ([] @ [''0:"x"'']) Map.empty
   \<and> build_map example_host ([] @ ''1:I[chunk]'' # [''0:"x"'']) Map.empty =
       build_map example_host ([] @ [''0:"x"'']) Map.empty\<close>
proof -
  have r0: "rootless_payload \<noteq> []
      \<and> (case build_map example_host (split_nl (trim rootless_payload)) Map.empty of
            Inl e \<Rightarrow> False | Inr dm \<Rightarrow> dm ''0'' = None)"
    by code_simp
  then obtain rm where r: "rootless_payload \<noteq> []
      \<and> build_map example_host (split_nl (trim rootless_payload)) Map.empty = Inr rm
      \<and> rm ''0'' = None"
    by (auto split: sum.splits)
  have m0: "malformed_payload \<noteq> []
      \<and> (case build_map example_host (split_nl (trim malformed_payload)) Map.empty of
            Inl e \<Rightarrow> e = ParseFailure ''7'' ''{bad'' | Inr dm \<Rightarrow> False)"
    by code_simp
  then have m: "malformed_payload \<noteq> []
      \<and> build_map example_host (split_nl (trim malformed_payload)) Map.empty =
          Inl (ParseFailure ''7'' ''{bad'')"
    by (auto split: sum.splits)
  have n: \<open>indexOf ''no colon here'' (CHR '':'') = None\<close> by code_simp
  have i: \<open>indexOf ''1:I[chunk]'' (CHR '':'') = Some 1
      \<and> take 1 (drop (1 + 1) ''1:I[chunk]'') \<notin> {''{'', ''['', [CHR 0x22]}\<close>
    by code_simp
  note t1 = parseAndDereference_failures [where h = example_host and responseText = rootless_payload
      and dataMap = rm and depth = 10]
  note t2 = parseAndDereference_failures [where h = example_host and responseText = malformed_payload
      and e = "ParseFailure ''7'' ''{bad''" and depth = 10]
  note t3 = parseAndDereference_failures [where h = example_host and line = "''no colon here''"
      and pre = "[]" and post = \<open>[''0:"x"'']\<close> and dm = Map.empty]
  note t4 = parseAndDereference_failures [where h = example_host and line = "''1:I[chunk]''"
      and pre = "[]" and post = \<open>[''0:"x"'']\<close> and dm = Map.empty and i = 1]
  from t1 r have a: "parseAndDereference example_host 10 rootless_payload = Inl RootMissing" by blast
  from t2 m have b: "parseAndDereference example_host 10 malformed_payload = Inl (ParseFailure ''7'' ''{bad'')"
    by blast
  from t3 n have c: \<open>build_map example_host ([] @ ''no colon here'' # [''0:"x"'']) Map.empty =
       build_map example_host ([] @ [''0:"x"'']) Map.empty\<close> by blast
  from t4 i have d: \<open>build_map example_host ([] @ ''1:I[chunk]'' # [''0:"x"'']) Map.empty =
       build_map example_host ([] @ [''0:"x"'']) Map.empty\<close> by blast
  from a b c d show ?thesis by (intro conjI)
qed

end
